theory Spec2Isabelle
  imports Complex_Main
begin

section \<open>Values and errors\<close>

text \<open>
  The engine of \<^verbatim>\<open>hardware/calibration/drift_calibration_system.py\<close> computes on Python
  and numpy floats. They are modelled by \<^typ>\<open>real\<close> and the arithmetic is exact, with one
  exception: the pH branch of the temperature compensation is computed as the machine
  computes it, every operation rounded to the nearest IEEE double, because whether that
  branch returns its input unchanged depends on the rounding.
  A numpy division never raises: on a zero denominator it yields an infinity or a NaN.
  Where the source divides by a number that can be zero, the quotient is a
  \<^typ>\<open>real option\<close> and \<open>None\<close> stands for such a non-finite value.
  A Python exception is a value of the type \<open>error\<close>.
\<close>

datatype error = KeyError string | ZeroDivisionError

text \<open>Python's truth value of an optional string argument: \<open>None\<close> and \<open>''\<close> are false.\<close>

definition truthy :: "string option \<Rightarrow> bool" where
  "truthy s = (case s of None \<Rightarrow> False | Some t \<Rightarrow> t \<noteq> [])"

section \<open>IEEE doubles\<close>

text \<open>
  A finite double is a real number. \<open>round_double\<close> rounds a real to the nearest double,
  ties to the even significand: the quantum is \<open>2 ^ (e - 52)\<close> for the binary exponent
  \<open>e\<close> of the number, and \<open>2 ^ (- 1074)\<close> in the subnormal range. The exponent is found
  by halving or doubling, at most as often as the format has exponents. Results beyond
  the largest double are not modelled. A float literal of the source is the
  \<open>round_double\<close> of its decimal value.
\<close>

definition pow2 :: "int \<Rightarrow> real" where
  "pow2 k = (if k \<ge> 0 then 2 ^ nat k else 1 / 2 ^ nat (- k))"

fun exponent_up :: "nat \<Rightarrow> real \<Rightarrow> int" where
  "exponent_up 0 x = 0"
| "exponent_up (Suc fuel) x = (if x < 2 then 0 else exponent_up fuel (x / 2) + 1)"

fun exponent_down :: "nat \<Rightarrow> real \<Rightarrow> int" where
  "exponent_down 0 x = 0"
| "exponent_down (Suc fuel) x = (if x \<ge> 1 then 0 else exponent_down fuel (x * 2) - 1)"

definition exponent :: "real \<Rightarrow> int" where
  "exponent x = (if x \<ge> 1 then exponent_up 1024 x else exponent_down 1075 x)"

definition round_half_even :: "real \<Rightarrow> int" where
  "round_half_even x =
     (let f = \<lfloor>x\<rfloor>; r = x - of_int f
      in if r < 1 / 2 then f else if r > 1 / 2 then f + 1 else if even f then f else f + 1)"

definition round_double :: "real \<Rightarrow> real" where
  "round_double x =
     (if x = 0 then 0
      else (let e = max (exponent \<bar>x\<bar>) (- 1022); quantum = pow2 (e - 52)
            in of_int (round_half_even (x / quantum)) * quantum))"

section \<open>Reference standards\<close>

record electrode_standard =
  reference_responses :: "(string \<times> real) list"
  temp_coefficient :: real
  aging_rate :: real
  noise_threshold :: real

record ph_standard =
  ph_slope_nominal :: real
  ph_temp_coefficient :: real
  ph_drift_threshold :: real

record conductivity_standard =
  cond_temp_coefficient :: real
  cond_cell_constant :: real
  cond_drift_threshold :: real

definition electrode_standards :: "(string \<times> electrode_standard) list" where
  "electrode_standards =
    [(''SS'', \<lparr>reference_responses = [(''pH4'', 1.85), (''pH7'', 1.42), (''pH10'', 0.95)],
              temp_coefficient = - 0.0012, aging_rate = 0.005, noise_threshold = 0.002\<rparr>),
     (''Cu'', \<lparr>reference_responses = [(''pH4'', 2.15), (''pH7'', 1.68), (''pH10'', 1.12)],
              temp_coefficient = - 0.0018, aging_rate = 0.008, noise_threshold = 0.003\<rparr>),
     (''Zn'', \<lparr>reference_responses = [(''pH4'', 2.45), (''pH7'', 1.89), (''pH10'', 1.35)],
              temp_coefficient = - 0.0015, aging_rate = 0.006, noise_threshold = 0.0025\<rparr>),
     (''Ag'', \<lparr>reference_responses = [(''pH4'', 2.78), (''pH7'', 2.21), (''pH10'', 1.58)],
              temp_coefficient = - 0.0009, aging_rate = 0.004, noise_threshold = 0.002\<rparr>),
     (''Pt'', \<lparr>reference_responses = [(''pH4'', 2.52), (''pH7'', 2.03), (''pH10'', 1.41)],
              temp_coefficient = - 0.0007, aging_rate = 0.003, noise_threshold = 0.0015\<rparr>)]"

definition ph_standards :: ph_standard where
  "ph_standards =
    \<lparr>ph_slope_nominal = - 59.16, ph_temp_coefficient = - 0.198, ph_drift_threshold = 1.0\<rparr>"

definition conductivity_standards :: conductivity_standard where
  "conductivity_standards =
    \<lparr>cond_temp_coefficient = 0.021, cond_cell_constant = 1.0, cond_drift_threshold = 0.05\<rparr>"

text \<open>The keys of \<^verbatim>\<open>environmental_standards\<close> in the table.\<close>

definition environmental_standards :: "string list" where
  "environmental_standards = [''pH'', ''conductivity'']"

text \<open>
  \<^verbatim>\<open>self.reference_standards['electrode_standards'][electrode_type]\<close>: a key that is
  not in the dictionary raises \<^verbatim>\<open>KeyError\<close>.
\<close>

definition electrode_standard_of :: "string \<Rightarrow> error + electrode_standard" where
  "electrode_standard_of electrode_type =
     (case map_of electrode_standards electrode_type of
        None \<Rightarrow> Inl (KeyError electrode_type)
      | Some std \<Rightarrow> Inr std)"

section \<open>Temperature compensation\<close>

text \<open>
  The pH branch of \<^verbatim>\<open>apply_temperature_compensation\<close>, operation by operation in the
  order Python evaluates it. The parameter \<open>rnd\<close> is applied to every float literal and
  to the result of every operation: with \<^const>\<open>round_double\<close> it is the computation of
  the program, with the identity it is the same formula in exact arithmetic. The
  integers 1000 and 2.0 are doubles as they stand, and negating a double is exact.
\<close>

definition nernst_compensation :: "(real \<Rightarrow> real) \<Rightarrow> real \<Rightarrow> real \<Rightarrow> real" where
  "nernst_compensation rnd reading temperature =
     (let nernst_slope_25 = - rnd 59.16;
          nernst_slope_t =
            rnd (rnd (nernst_slope_25 * rnd (temperature + rnd 273.15)) / rnd 298.15);
          ph_at_25 = rnd (rnd (reading - 2.0) / rnd (nernst_slope_25 / 1000));
          compensated_voltage = rnd (2.0 + rnd (ph_at_25 * rnd (nernst_slope_t / 1000)))
      in compensated_voltage)"

text \<open>
  \<^verbatim>\<open>apply_temperature_compensation(reading, temperature, sensor_type, electrode_type=None)\<close>.
  The conductivity branch divides two Python floats, which raises on a zero divisor.
\<close>

definition apply_temperature_compensation ::
  "real \<Rightarrow> real \<Rightarrow> string \<Rightarrow> string option \<Rightarrow> error + real" where
  "apply_temperature_compensation reading temperature sensor_type electrode_type =
     (let reference_temp = 25.0;
          temp_diff = temperature - reference_temp
      in if sensor_type = ''electrode'' \<and> truthy electrode_type then
           (case electrode_standard_of (the electrode_type) of
              Inl e \<Rightarrow> Inl e
            | Inr std \<Rightarrow>
                (let temp_coeff = temp_coefficient std;
                     compensation = temp_coeff * temp_diff
                 in Inr (reading - compensation)))
         else if sensor_type = ''pH'' then
           Inr (nernst_compensation round_double reading temperature)
         else if sensor_type = ''conductivity'' then
           (let temp_coeff = cond_temp_coefficient conductivity_standards;
                compensation_factor = 1 + temp_coeff * temp_diff
            in if compensation_factor = 0 then Inl ZeroDivisionError
               else Inr (reading / compensation_factor))
         else
           (let compensation = - 0.001 * temp_diff
            in Inr (reading - compensation)))"

section \<open>Kalman filter\<close>

text \<open>
  The loop of \<^verbatim>\<open>kalman_filter_enhancement\<close> runs over \<^verbatim>\<open>range(n)\<close>, carries
  \<^verbatim>\<open>x_est\<close> and \<^verbatim>\<open>p_est\<close>, and writes \<^verbatim>\<open>filtered[i]\<close>.
\<close>

record kalman_state =
  x_est :: real
  p_est :: real
  filtered :: "real list"

definition kalman_step :: "real list \<Rightarrow> real \<Rightarrow> real \<Rightarrow> nat \<Rightarrow> kalman_state \<Rightarrow> kalman_state" where
  "kalman_step measurements process_noise measurement_noise i s =
     (let x_pred = x_est s;
          p_pred = p_est s + process_noise;
          innovation = measurements ! i - x_pred;
          kalman_gain = p_pred / (p_pred + measurement_noise);
          x_new = x_pred + kalman_gain * innovation;
          p_new = (1 - kalman_gain) * p_pred
      in \<lparr>x_est = x_new, p_est = p_new, filtered = (filtered s)[i := x_new]\<rparr>)"

fun kalman_loop :: "real list \<Rightarrow> real \<Rightarrow> real \<Rightarrow> nat list \<Rightarrow> kalman_state \<Rightarrow> kalman_state" where
  "kalman_loop measurements process_noise measurement_noise [] s = s"
| "kalman_loop measurements process_noise measurement_noise (i # is) s =
     kalman_loop measurements process_noise measurement_noise is
       (kalman_step measurements process_noise measurement_noise i s)"

definition kalman_noise :: "string \<Rightarrow> real \<times> real" where
  "kalman_noise sensor_type =
     (if sensor_type = ''electrode'' then (0.000001, 0.0001)
      else if sensor_type = ''pH'' then (0.00001, 0.001)
      else (0.00001, 0.001))"

definition kalman_filter_enhancement :: "real list \<Rightarrow> string \<Rightarrow> real list" where
  "kalman_filter_enhancement measurements sensor_type =
     (let n = length measurements
      in if n < 3 then measurements
         else
           (let (process_noise, measurement_noise) = kalman_noise sensor_type;
                s0 = \<lparr>x_est = measurements ! 0, p_est = 1.0, filtered = replicate n 0\<rparr>
            in filtered (kalman_loop measurements process_noise measurement_noise [0..<n] s0)))"

text \<open>
  The filter as the specification words it: the estimate starts at the first sample, the
  covariance at 1, and each processed observation is a predict step followed by an update
  step; the result is the running estimate after each step.
\<close>

fun spec_kalman_steps :: "real \<Rightarrow> real \<Rightarrow> real \<Rightarrow> real \<Rightarrow> real list \<Rightarrow> real list" where
  "spec_kalman_steps process_noise measurement_noise estimate covariance [] = []"
| "spec_kalman_steps process_noise measurement_noise estimate covariance (observation # rest) =
     (let covariance1 = covariance + process_noise;
          gain = covariance1 / (covariance1 + measurement_noise);
          estimate1 = estimate + gain * (observation - estimate);
          covariance2 = covariance1 * (1 - gain)
      in estimate1 # spec_kalman_steps process_noise measurement_noise estimate1 covariance2 rest)"

text \<open>The specification's reading: only the samples after the first are filtered.\<close>

definition spec_kalman_subsequent :: "real list \<Rightarrow> string \<Rightarrow> real list" where
  "spec_kalman_subsequent series sensor_type =
     (let (process_noise, measurement_noise) = kalman_noise sensor_type
      in hd series # spec_kalman_steps process_noise measurement_noise (hd series) 1 (tl series))"

text \<open>The same recursion run over every sample, the first included.\<close>

definition spec_kalman_every :: "real list \<Rightarrow> string \<Rightarrow> real list" where
  "spec_kalman_every series sensor_type =
     (let (process_noise, measurement_noise) = kalman_noise sensor_type
      in spec_kalman_steps process_noise measurement_noise (hd series) 1 series)"

section \<open>numpy on lists\<close>

text \<open>
  One-dimensional arrays are lists. \<open>np_mean\<close>, \<open>np_std\<close> (population standard
  deviation), \<open>np_diff\<close>, \<open>np_where\<close> (the indices where a condition holds),
  \<open>np_arange\<close>, \<open>np_max\<close> and \<open>np_min\<close> follow numpy's definitions.
\<close>

definition np_mean :: "real list \<Rightarrow> real" where
  "np_mean xs = sum_list xs / real (length xs)"

definition np_std :: "real list \<Rightarrow> real" where
  "np_std xs = (let m = np_mean xs in sqrt (np_mean (map (\<lambda>x. \<bar>x - m\<bar> ^ 2) xs)))"

definition np_diff :: "real list \<Rightarrow> real list" where
  "np_diff xs = map (\<lambda>(a, b). b - a) (zip xs (tl xs))"

definition np_where :: "('a \<Rightarrow> bool) \<Rightarrow> 'a list \<Rightarrow> nat list" where
  "np_where cond xs = filter (\<lambda>i. cond (xs ! i)) [0..<length xs]"

definition np_arange :: "nat \<Rightarrow> real list" where
  "np_arange n = map real [0..<n]"

fun np_max :: "real list \<Rightarrow> real" where
  "np_max (x # xs) = fold max xs x"

fun np_min :: "real list \<Rightarrow> real" where
  "np_min (x # xs) = fold min xs x"

section \<open>Statistical primitives\<close>

text \<open>\<^verbatim>\<open>_calculate_linear_trend(x, y)\<close>: the least-squares slope, 0 below two points.\<close>

definition calculate_linear_trend :: "real list \<Rightarrow> real list \<Rightarrow> real" where
  "calculate_linear_trend x y =
     (let n = length x
      in if n < 2 then 0
         else
           (let sum_x = sum_list x;
                sum_y = sum_list y;
                sum_xy = sum_list (map2 (*) x y);
                sum_x2 = sum_list (map2 (*) x x)
            in (real n * sum_xy - sum_x * sum_y) / (real n * sum_x2 - sum_x * sum_x)))"

record cusum_stats =
  cusum_positive :: "real list"
  cusum_negative :: "real list"
  positive_alarm :: bool
  negative_alarm :: bool
  alarm_triggered :: bool
  max_cusum_pos :: real
  min_cusum_neg :: real

text \<open>
  The loop of \<^verbatim>\<open>_calculate_cusum\<close> over \<^verbatim>\<open>range(1, len(deviations))\<close>, on the two
  arrays it fills.
\<close>

fun cusum_loop :: "real list \<Rightarrow> real \<Rightarrow> nat list \<Rightarrow> real list \<times> real list \<Rightarrow> real list \<times> real list" where
  "cusum_loop deviations k [] (cusum_pos, cusum_neg) = (cusum_pos, cusum_neg)"
| "cusum_loop deviations k (i # is) (cusum_pos, cusum_neg) =
     cusum_loop deviations k is
       (cusum_pos[i := max 0 (cusum_pos ! (i - 1) + deviations ! i - k)],
        cusum_neg[i := min 0 (cusum_neg ! (i - 1) + deviations ! i + k)])"

text \<open>\<^verbatim>\<open>_calculate_cusum(data)\<close> with \<^verbatim>\<open>target\<close> and \<^verbatim>\<open>std_dev\<close> left to their defaults.\<close>

definition calculate_cusum :: "real list \<Rightarrow> cusum_stats" where
  "calculate_cusum data =
     (let target = np_mean (take (min 10 (length data)) data);
          std_dev = np_std (take (min 10 (length data)) data);
          deviations = map (\<lambda>x. (x - target) / max std_dev 0.000001) data;
          k = 0.5;
          h = 4.0;
          zeros = replicate (length deviations) 0;
          (cusum_pos, cusum_neg) = cusum_loop deviations k [1..<length deviations] (zeros, zeros);
          pos_alarm = (\<exists>v \<in> set cusum_pos. v > h);
          neg_alarm = (\<exists>v \<in> set cusum_neg. v < - h)
      in \<lparr>cusum_positive = cusum_pos,
          cusum_negative = cusum_neg,
          positive_alarm = pos_alarm,
          negative_alarm = neg_alarm,
          alarm_triggered = (pos_alarm \<or> neg_alarm),
          max_cusum_pos = np_max cusum_pos,
          min_cusum_neg = np_min cusum_neg\<rparr>)"

record moving_range_stats =
  mean_moving_range :: real
  mr_upper_control_limit :: real
  mr_lower_control_limit :: real
  mr_out_of_control_points :: "nat list"
  mr_out_of_control :: bool
  percent_out_of_control :: real

definition calculate_moving_range_stats :: "real list \<Rightarrow> moving_range_stats" where
  "calculate_moving_range_stats moving_ranges =
     (let mean_mr = np_mean moving_ranges;
          d2 = 1.128 :: real;
          d3 = 0.853;
          d4 = 1.693;
          ucl_mr = d4 * mean_mr;
          lcl_mr = max 0 (d3 * mean_mr);
          out_of_control_points = np_where (\<lambda>v. v > ucl_mr \<or> v < lcl_mr) moving_ranges
      in \<lparr>mean_moving_range = mean_mr,
          mr_upper_control_limit = ucl_mr,
          mr_lower_control_limit = lcl_mr,
          mr_out_of_control_points = out_of_control_points,
          mr_out_of_control = (length out_of_control_points > 0),
          percent_out_of_control =
            real (length out_of_control_points) / real (length moving_ranges) * 100\<rparr>)"

text \<open>
  The run-rule loop of \<^verbatim>\<open>_statistical_process_control\<close>: it reads \<^verbatim>\<open>above_center[i]\<close>,
  counts every other point as below, and stops (\<^verbatim>\<open>break\<close>) when a counter reaches 9.
  The array \<^verbatim>\<open>below_center\<close> of the source is computed and never read.
\<close>

fun rule2_loop :: "bool list \<Rightarrow> nat \<Rightarrow> nat \<Rightarrow> bool" where
  "rule2_loop [] consecutive_above consecutive_below = False"
| "rule2_loop (is_above # rest) consecutive_above consecutive_below =
     (let (consecutive_above1, consecutive_below1) =
            (if is_above then (consecutive_above + 1, 0) else (0, consecutive_below + 1))
      in if consecutive_above1 \<ge> 9 \<or> consecutive_below1 \<ge> 9 then True
         else rule2_loop rest consecutive_above1 consecutive_below1)"

record spc_stats =
  spc_mean :: real
  std_deviation :: real
  spc_upper_control_limit :: real
  spc_lower_control_limit :: real
  spc_out_of_control_points :: "nat list"
  rule2_violation :: bool
  spc_out_of_control :: bool

definition statistical_process_control :: "real list \<Rightarrow> spc_stats" where
  "statistical_process_control data =
     (let mean_val = np_mean data;
          std_val = np_std data;
          ucl = mean_val + 3 * std_val;
          lcl = mean_val - 3 * std_val;
          out_of_control = np_where (\<lambda>v. v > ucl \<or> v < lcl) data;
          above_center = map (\<lambda>v. v > mean_val) data;
          below_center = map (\<lambda>v. v < mean_val) data;
          rule2 = rule2_loop above_center 0 0
      in \<lparr>spc_mean = mean_val,
          std_deviation = std_val,
          spc_upper_control_limit = ucl,
          spc_lower_control_limit = lcl,
          spc_out_of_control_points = out_of_control,
          rule2_violation = rule2,
          spc_out_of_control = (length out_of_control > 0 \<or> rule2)\<rparr>)"

section \<open>Drift detection\<close>

record recommendation =
  action :: string
  urgency :: string
  message :: string
  next_check_hours :: nat

definition generate_drift_recommendation :: "bool \<Rightarrow> real \<Rightarrow> real \<Rightarrow> recommendation" where
  "generate_drift_recommendation drift_detected confidence drift_rate =
     (if \<not> drift_detected then
        \<lparr>action = ''monitor'', urgency = ''low'',
         message = ''No significant drift detected. Continue normal monitoring.'',
         next_check_hours = 24\<rparr>
      else if confidence < 0.6 then
        \<lparr>action = ''increase_monitoring'', urgency = ''medium'',
         message = ''Possible drift detected. Increase monitoring frequency.'',
         next_check_hours = 4\<rparr>
      else if \<bar>drift_rate\<bar> > 0.01 then
        \<lparr>action = ''immediate_calibration'', urgency = ''high'',
         message = ''Significant drift detected. Immediate calibration recommended.'',
         next_check_hours = 1\<rparr>
      else
        \<lparr>action = ''schedule_calibration'', urgency = ''medium'',
         message = ''Moderate drift detected. Schedule calibration within 24 hours.'',
         next_check_hours = 8\<rparr>)"

record drift_indicators =
  linear_trend :: bool
  cusum_alarm :: bool
  range_alarm :: bool
  spc_alarm :: bool

text \<open>\<^verbatim>\<open>drift_indicators.values()\<close>, in the order the dictionary is written.\<close>

definition indicator_values :: "drift_indicators \<Rightarrow> bool list" where
  "indicator_values d = [linear_trend d, cusum_alarm d, range_alarm d, spc_alarm d]"

record drift_analysis =
  drift_detected :: bool
  drift_confidence :: real
  drift_rate_per_hour :: real
  linear_slope :: real
  cusum_statistics :: cusum_stats
  moving_range_statistics :: moving_range_stats
  spc_statistics :: spc_stats
  individual_indicators :: drift_indicators
  drift_recommendation :: recommendation

text \<open>
  \<^verbatim>\<open>detect_sensor_drift\<close> returns the dictionary
  \<^verbatim>\<open>{'drift_detected': False, 'reason': 'Insufficient data'}\<close> below ten samples
  (\<open>Insufficient_samples\<close>) and the full analysis otherwise.
\<close>

datatype drift_result = Insufficient_samples | Drift_analysis drift_analysis

definition drift_threshold_of :: "string \<Rightarrow> string option \<Rightarrow> error + real" where
  "drift_threshold_of sensor_type electrode_type =
     (if sensor_type = ''electrode'' \<and> truthy electrode_type then
        (case electrode_standard_of (the electrode_type) of
           Inl e \<Rightarrow> Inl e
         | Inr std \<Rightarrow> Inr (aging_rate std / 30))
      else if sensor_type = ''pH'' then Inr (ph_drift_threshold ph_standards)
      else Inr 0.01)"

definition detect_sensor_drift :: "real list \<Rightarrow> string \<Rightarrow> string option \<Rightarrow> error + drift_result" where
  "detect_sensor_drift readings sensor_type electrode_type =
     (let n_samples = length readings
      in if n_samples < 10 then Inr Insufficient_samples
         else
           (let time_points = np_arange n_samples;
                slope = calculate_linear_trend time_points readings;
                cusum = calculate_cusum readings;
                moving_ranges = map abs (np_diff readings);
                mr = calculate_moving_range_stats moving_ranges;
                spc = statistical_process_control readings
            in case drift_threshold_of sensor_type electrode_type of
                 Inl e \<Rightarrow> Inl e
               | Inr drift_threshold \<Rightarrow>
                   (let drift_rate = (if n_samples > 1 then slope * 3600 / real n_samples else 0);
                        indicators =
                          \<lparr>linear_trend = (\<bar>drift_rate\<bar> > drift_threshold),
                           cusum_alarm = alarm_triggered cusum,
                           range_alarm = mr_out_of_control mr,
                           spc_alarm = spc_out_of_control spc\<rparr>;
                        confidence =
                          real (length (filter id (indicator_values indicators)))
                            / real (length (indicator_values indicators));
                        detected = (confidence \<ge> 0.4)
                    in Inr (Drift_analysis
                         \<lparr>drift_detected = detected,
                          drift_confidence = confidence,
                          drift_rate_per_hour = drift_rate,
                          linear_slope = slope,
                          cusum_statistics = cusum,
                          moving_range_statistics = mr,
                          spc_statistics = spc,
                          individual_indicators = indicators,
                          drift_recommendation =
                            generate_drift_recommendation detected confidence drift_rate\<rparr>))))"

section \<open>Cross validation\<close>

text \<open>
  A dictionary is an association list read with \<^const>\<open>map_of\<close>; the empty list is
  the empty (false) dictionary. A reference profile maps field names to dictionaries,
  \<^verbatim>\<open>electrode_response\<close> among them; the current readings map names such as
  \<^verbatim>\<open>SS_voltage\<close> to numbers.
\<close>

type_synonym readings = "(string \<times> real) list"
type_synonym profile = "(string \<times> (string \<times> real) list) list"

text \<open>\<^verbatim>\<open>d.get(key, dflt)\<close>.\<close>

definition dict_get :: "(string \<times> 'a) list \<Rightarrow> string \<Rightarrow> 'a \<Rightarrow> 'a" where
  "dict_get d key dflt = (case map_of d key of None \<Rightarrow> dflt | Some v \<Rightarrow> v)"

text \<open>
  numpy's division on arrays and scalars: a zero denominator gives \<^verbatim>\<open>inf\<close> or
  \<^verbatim>\<open>nan\<close> and a warning, never an exception. \<open>None\<close> is that non-finite value.
  Arithmetic keeps a non-finite value non-finite, and Python's \<^verbatim>\<open>max(0, v)\<close> is 0 on
  \<^verbatim>\<open>nan\<close> and on \<^verbatim>\<open>-inf\<close>, the two values \<^verbatim>\<open>1 - v\<close> takes on a non-finite
  \<^verbatim>\<open>v\<close> that is \<^verbatim>\<open>nan\<close> or \<^verbatim>\<open>+inf\<close>.
\<close>

definition np_divide :: "real \<Rightarrow> real \<Rightarrow> real option" where
  "np_divide a b = (if b = 0 then None else Some (a / b))"

definition np_mean_opt :: "real option list \<Rightarrow> real option" where
  "np_mean_opt vs = (if None \<in> set vs then None else Some (np_mean (map the vs)))"

definition max0 :: "real option \<Rightarrow> real" where
  "max0 v = (case v of None \<Rightarrow> 0 | Some x \<Rightarrow> max 0 x)"

text \<open>
  \<^verbatim>\<open>np.corrcoef(x, y)[0, 1]\<close>: the covariance (normalised by \<open>n - 1\<close>) divided by the
  two standard deviations, one after the other; a zero standard deviation gives \<^verbatim>\<open>nan\<close>.
\<close>

definition np_cov :: "real list \<Rightarrow> real list \<Rightarrow> real" where
  "np_cov xs ys =
     (let mx = np_mean xs; my = np_mean ys
      in sum_list (map2 (\<lambda>x y. (x - mx) * (y - my)) xs ys) / (real (length xs) - 1))"

definition np_corrcoef :: "real list \<Rightarrow> real list \<Rightarrow> real option" where
  "np_corrcoef xs ys =
     (let c01 = np_cov xs ys;
          stddev0 = sqrt (np_cov xs xs);
          stddev1 = sqrt (np_cov ys ys)
      in case np_divide c01 stddev0 of
           None \<Rightarrow> None
         | Some q \<Rightarrow> np_divide q stddev1)"

record validation_metrics =
  correlation :: "real option"
  normalized_rmse :: "real option"
  mean_relative_error :: "real option"

record electrode_comparison =
  expected :: "real list"
  actual :: "real list"
  relative_errors :: "real option list"

record validation_result =
  validation_score :: real
  status :: string
  herb_name :: string
  metrics :: validation_metrics
  comparison :: electrode_comparison

text \<open>
  The two early returns of \<^verbatim>\<open>cross_validation_check\<close> are dictionaries with a
  \<^verbatim>\<open>validation_score\<close> of 0 and a \<^verbatim>\<open>status\<close> only: \<open>Sentinel score status\<close>.
\<close>

datatype validation_outcome = is_Sentinel: Sentinel real string | Computed validation_result

definition electrodes :: "string list" where
  "electrodes = [''SS'', ''Cu'', ''Zn'', ''Ag'', ''Pt'']"

text \<open>The loop that collects \<^verbatim>\<open>expected_values\<close> and \<^verbatim>\<open>actual_values\<close>.\<close>

fun collect_values :: "readings \<Rightarrow> profile \<Rightarrow> string list \<Rightarrow> real list \<times> real list \<Rightarrow> real list \<times> real list" where
  "collect_values current_readings reference_profile [] (expected_values, actual_values) =
     (expected_values, actual_values)"
| "collect_values current_readings reference_profile (electrode # rest) (expected_values, actual_values) =
     (let response = dict_get reference_profile ''electrode_response'' []
      in case map_of response electrode of
           Some v \<Rightarrow>
             collect_values current_readings reference_profile rest
               (expected_values @ [v],
                actual_values @ [dict_get current_readings (electrode @ ''_voltage'') 0])
         | None \<Rightarrow>
             collect_values current_readings reference_profile rest (expected_values, actual_values))"

definition cross_validation_check :: "readings \<Rightarrow> profile \<Rightarrow> string \<Rightarrow> validation_outcome" where
  "cross_validation_check current_readings reference_profile herb =
     (if reference_profile = [] \<or> current_readings = [] then Sentinel 0 ''insufficient_data''
      else
        (let (expected_values, actual_values) =
               collect_values current_readings reference_profile electrodes ([], [])
         in if length expected_values < 3 then Sentinel 0 ''insufficient_reference_data''
            else
              (let corr = np_corrcoef expected_values actual_values;
                   rmse = sqrt (np_mean (map2 (\<lambda>e a. (e - a) ^ 2) expected_values actual_values));
                   nrmse = np_divide rmse (np_max expected_values - np_min expected_values);
                   rel_errors =
                     map2 (\<lambda>e a. map_option (\<lambda>q. \<bar>q\<bar> * 100) (np_divide (a - e) e))
                       expected_values actual_values;
                   mean_rel_error = np_mean_opt rel_errors;
                   correlation_score = max0 corr * 30;
                   rmse_score = max0 (map_option (\<lambda>v. 1 - v) nrmse) * 30;
                   error_score = max0 (map_option (\<lambda>v. 1 - v / 100) mean_rel_error) * 40;
                   composite_score = correlation_score + rmse_score + error_score;
                   st = (if composite_score \<ge> 80 then ''excellent_match''
                         else if composite_score \<ge> 60 then ''good_match''
                         else if composite_score \<ge> 40 then ''acceptable_match''
                         else if composite_score \<ge> 20 then ''poor_match''
                         else ''no_match'')
               in Computed
                    \<lparr>validation_score = composite_score,
                     status = st,
                     herb_name = herb,
                     metrics = \<lparr>correlation = corr, normalized_rmse = nrmse,
                                mean_relative_error = mean_rel_error\<rparr>,
                     comparison = \<lparr>expected = expected_values, actual = actual_values,
                                   relative_errors = rel_errors\<rparr>\<rparr>)))"

text \<open>
  The electrodes that are keys of the profile's \<^verbatim>\<open>electrode_response\<close>: the ones for
  which the loop appends a pair of values.
\<close>

definition present_in_reference :: "profile \<Rightarrow> string list" where
  "present_in_reference reference_profile =
     filter (\<lambda>electrode.
         map_of (dict_get reference_profile ''electrode_response'' []) electrode \<noteq> None)
       electrodes"

text \<open>
  The specification's count: the electrodes present in both the reference profile and the
  current reading set.
\<close>

definition spec_present_in_both :: "readings \<Rightarrow> profile \<Rightarrow> string list" where
  "spec_present_in_both current_readings reference_profile =
     filter (\<lambda>electrode. map_of current_readings (electrode @ ''_voltage'') \<noteq> None)
       (present_in_reference reference_profile)"

section \<open>Predictive maintenance\<close>

text \<open>
  An entry of the sensor history is a dictionary: \<^verbatim>\<open>entry['timestamp']\<close> raises when
  the key is missing, \<^verbatim>\<open>entry.get('drift_rate', 0)\<close> and
  \<^verbatim>\<open>entry.get('noise_level', 0)\<close> do not. A field that is \<open>None\<close> is a missing key.
\<close>

record history_entry =
  timestamp :: "string option"
  drift_rate :: "real option"
  noise_level :: "real option"

text \<open>\<^verbatim>\<open>entry.get('drift_rate', 0)\<close> and \<^verbatim>\<open>entry.get('noise_level', 0)\<close>.\<close>

definition get_drift_rate :: "history_entry \<Rightarrow> real" where
  "get_drift_rate entry = (case drift_rate entry of None \<Rightarrow> 0 | Some v \<Rightarrow> v)"

definition get_noise_level :: "history_entry \<Rightarrow> real" where
  "get_noise_level entry = (case noise_level entry of None \<Rightarrow> 0 | Some v \<Rightarrow> v)"

text \<open>Python's \<^verbatim>\<open>int()\<close> of a float truncates towards zero.\<close>

definition py_int :: "real \<Rightarrow> int" where
  "py_int x = (if x \<ge> 0 then \<lfloor>x\<rfloor> else \<lceil>x\<rceil>)"

text \<open>The three messages; the two formatted ones carry the integer they print.\<close>

datatype maintenance_message =
    Immediate_within_week
  | Recommended_within_days int
  | Next_due_in_days int

record current_performance =
  current_drift_rate :: real
  current_noise_level :: real

record performance_trends =
  drift_trend :: real
  noise_trend :: real

record maintenance_prediction =
  next_maintenance_days :: int
  maintenance_urgency :: string
  maintenance_message :: maintenance_message
  performance :: current_performance
  trends :: performance_trends

text \<open>
  \<^verbatim>\<open>{'status': 'insufficient_data'}\<close> is \<open>Insufficient_history\<close>; a result with
  status \<^verbatim>\<open>analysis_complete\<close> is \<open>Analysis_complete\<close>.
\<close>

datatype maintenance_outcome = Insufficient_history | Analysis_complete maintenance_prediction

text \<open>
  The dictionary \<^verbatim>\<open>maintenance_predictions\<close>, with the entries in the order the code
  adds them.
\<close>

definition maintenance_predictions :: "real \<Rightarrow> real \<Rightarrow> real \<Rightarrow> real \<Rightarrow> (string \<times> real) list" where
  "maintenance_predictions drift_tr current_drift noise_tr current_noise =
     (let drift_threshold = 0.05;
          noise_threshold = 0.01;
          p1 = (if drift_tr > 0 \<and> current_drift < drift_threshold then
                  (let days_to_drift_limit =
                         (drift_threshold - current_drift) / max drift_tr 0.0000000001
                   in [(''drift_maintenance'', max 1 days_to_drift_limit)])
                else []);
          p2 = (if noise_tr > 0 \<and> current_noise < noise_threshold then
                  (let days_to_noise_limit =
                         (noise_threshold - current_noise) / max noise_tr 0.0000000001
                   in [(''noise_maintenance'', max 1 days_to_noise_limit)])
                else [])
      in p1 @ p2)"

text \<open>Python's \<^verbatim>\<open>min\<close> of a non-empty collection.\<close>

fun py_min :: "real list \<Rightarrow> real" where
  "py_min (x # xs) = fold min xs x"

definition predictive_maintenance_analysis ::
  "history_entry list \<Rightarrow> 'u \<Rightarrow> error + maintenance_outcome" where
  "predictive_maintenance_analysis sensor_history usage_data =
     (if sensor_history = [] \<or> length sensor_history < 20 then Inr Insufficient_history
      else if \<exists>entry \<in> set sensor_history. timestamp entry = None then Inl (KeyError ''timestamp'')
      else
        (let drift_rates = map get_drift_rate sensor_history;
             noise_levels = map get_noise_level sensor_history;
             n = length drift_rates;
             time_indices = np_arange n;
             drift_tr = calculate_linear_trend time_indices drift_rates;
             noise_tr = calculate_linear_trend time_indices noise_levels;
             current_drift = (if drift_rates \<noteq> [] then last drift_rates else 0);
             current_noise = (if noise_levels \<noteq> [] then last noise_levels else 0);
             predictions = maintenance_predictions drift_tr current_drift noise_tr current_noise;
             next_days = (if predictions \<noteq> [] then py_min (map snd predictions) else 90);
             (urg, msg) =
               (if next_days < 7 then (''critical'', Immediate_within_week)
                else if next_days < 30 then (''high'', Recommended_within_days (py_int next_days))
                else (''medium'', Next_due_in_days (py_int next_days)))
         in Inr (Analysis_complete
              \<lparr>next_maintenance_days = py_int next_days,
               maintenance_urgency = urg,
               maintenance_message = msg,
               performance = \<lparr>current_drift_rate = current_drift,
                               current_noise_level = current_noise\<rparr>,
               trends = \<lparr>drift_trend = drift_tr, noise_trend = noise_tr\<rparr>\<rparr>)))"





text \<open>The numerator of the least-squares slope of a series against its indices.\<close>

definition trend_numerator :: "real list \<Rightarrow> real" where
  "trend_numerator ys =
     real (length ys) * sum_list (map2 (*) (np_arange (length ys)) ys)
       - sum_list (np_arange (length ys)) * sum_list ys"

section \<open>Temperature compensation at the reference temperature\<close>

lemma electrode_standard_truthy:
  "map_of electrode_standards e \<noteq> None \<Longrightarrow> truthy (Some e)"
  by (auto simp: electrode_standards_def truthy_def)

lemma compensation_electrode_25:
  assumes "map_of electrode_standards e \<noteq> None"
  shows "apply_temperature_compensation v 25 ''electrode'' (Some e) = Inr v"
  using assms electrode_standard_truthy [OF assms]
  by (auto simp: apply_temperature_compensation_def electrode_standard_of_def)

lemma compensation_conductivity_25:
  "apply_temperature_compensation v 25 ''conductivity'' et = Inr v"
  by (simp add: apply_temperature_compensation_def conductivity_standards_def)

lemma compensation_default_25:
  "st \<noteq> ''electrode'' \<or> \<not> truthy et \<Longrightarrow> st \<noteq> ''pH'' \<Longrightarrow> st \<noteq> ''conductivity'' \<Longrightarrow>
     apply_temperature_compensation v 25 st et = Inr v"
  by (auto simp: apply_temperature_compensation_def)

text \<open>The search of \<^const>\<open>exponent\<close> finds the binary exponent of a number in the range
  of the doubles.\<close>

lemma inverse_power2_le_1: "1 / 2 ^ k \<le> (1::real)"
proof -
  have "(1::real) \<le> 2 ^ k" by (rule one_le_power) simp
  then show ?thesis by (simp add: field_simps)
qed

lemma exponent_up_eq:
  "2 ^ k \<le> x \<Longrightarrow> x < 2 ^ Suc k \<Longrightarrow> k < fuel \<Longrightarrow> exponent_up fuel x = int k"
proof (induction k arbitrary: fuel x)
  case 0
  then obtain f where "fuel = Suc f" by (cases fuel) auto
  with 0 show ?case by simp
next
  case (Suc k)
  then obtain f where f: "fuel = Suc f" by (cases fuel) auto
  have h: "(1::real) \<le> 2 ^ k" by (rule one_le_power) simp
  have "2 \<le> x" using Suc.prems(1) h unfolding power_Suc by linarith
  moreover have "exponent_up f (x / 2) = int k"
    using Suc.prems f by (intro Suc.IH) simp_all
  ultimately show ?case by (simp add: f)
qed

lemma exponent_down_ge_1: "1 \<le> x \<Longrightarrow> exponent_down fuel x = 0"
  by (cases fuel) simp_all

lemma exponent_down_eq:
  "1 / 2 ^ Suc k \<le> x \<Longrightarrow> x < 1 / 2 ^ k \<Longrightarrow> k < fuel \<Longrightarrow>
     exponent_down fuel x = - int (Suc k)"
proof (induction k arbitrary: fuel x)
  case 0
  then obtain f where "fuel = Suc f" by (cases fuel) auto
  with 0 show ?case by (simp add: exponent_down_ge_1)
next
  case (Suc k)
  then obtain f where f: "fuel = Suc f" by (cases fuel) auto
  have "x < 1" using Suc.prems(2) inverse_power2_le_1 [of "Suc k"] by linarith
  moreover have "exponent_down f (x * 2) = - int (Suc k)"
    using Suc.prems f by (intro Suc.IH) (simp_all add: field_simps)
  ultimately show ?case by (simp add: f)
qed

lemma exponent_eq:
  assumes "pow2 e \<le> x" and "x < pow2 (e + 1)" and "- 1075 \<le> e" and "e \<le> 1023"
  shows "exponent x = e"
proof (cases "0 \<le> e")
  case True
  then have p: "pow2 e = 2 ^ nat e" "pow2 (e + 1) = 2 ^ Suc (nat e)"
    by (simp_all add: pow2_def nat_add_distrib)
  have h: "(1::real) \<le> 2 ^ nat e" by (rule one_le_power) simp
  have "1 \<le> x" using assms(1) h unfolding p(1) by linarith
  moreover have "exponent_up 1024 x = int (nat e)"
    using assms p True by (intro exponent_up_eq) simp_all
  ultimately show ?thesis using True by (simp add: exponent_def)
next
  case False
  define k where "k = nat (- e - 1)"
  have k: "e = - int (Suc k)" using False by (simp add: k_def)
  have n: "nat (int k + 1) = Suc k" by simp
  have p: "pow2 e = 1 / 2 ^ Suc k" "pow2 (e + 1) = 1 / 2 ^ k"
    by (simp_all add: pow2_def k n)
  have "x < 1"
    using assms(2) p(2) inverse_power2_le_1 [of k] by linarith
  moreover have "exponent_down 1075 x = - int (Suc k)"
    using assms p k by (intro exponent_down_eq) simp_all
  ultimately show ?thesis by (simp add: exponent_def k)
qed

text \<open>Evaluating \<^const>\<open>round_double\<close>: the fuel of the search is a numeral.\<close>

lemma exponent_fuel:
  "exponent_up (numeral k) x = (if x < 2 then 0 else exponent_up (pred_numeral k) (x / 2) + 1)"
  "exponent_down (numeral k) x = (if x \<ge> 1 then 0 else exponent_down (pred_numeral k) (x * 2) - 1)"
  by (simp_all add: numeral_eq_Suc)

lemmas round_double_eval =
  round_double_def exponent_def round_half_even_def pow2_def exponent_fuel Let_def

lemma double_literals:
  "round_double 0.1 = 3602879701896397 / 36028797018963968"
  "round_double 59.16 = 2081507452775301 / 35184372088832"
  "round_double 273.15 = 2402652809016115 / 8796093022208"
  "round_double 298.15 = 2622555134571315 / 8796093022208"
  by (simp_all add: round_double_eval)

lemma nernst_slope_steps:
  "round_double (25 + 2402652809016115 / 8796093022208) = 2622555134571315 / 8796093022208"
  "round_double (- (2081507452775301 / 35184372088832) * (2622555134571315 / 8796093022208))
      = - (2424224402519359 / 137438953472)"
  "round_double (- (2424224402519359 / 137438953472) / (2622555134571315 / 8796093022208))
      = - (8326029811101203 / 140737488355328)"
  "round_double (- (8326029811101203 / 140737488355328) / 1000)
      = - (532865907910477 / 9007199254740992)"
  "round_double (- (2081507452775301 / 35184372088832) / 1000)
      = - (8525854526567633 / 144115188075855872)"
  by (simp_all add: round_double_eval)

lemma nernst_reading_steps:
  "round_double (3602879701896397 / 36028797018963968 - 2)
      = - (4278419646001971 / 2251799813685248)"
  "round_double (- (4278419646001971 / 2251799813685248)
        / - (8525854526567633 / 144115188075855872))
      = 4519966664555835 / 140737488355328"
  "round_double (4519966664555835 / 140737488355328 * - (532865907910477 / 9007199254740992))
      = - (8556839292003941 / 4503599627370496)"
  "round_double (2 + - (8556839292003941 / 4503599627370496))
      = 450359962737051 / 4503599627370496"
  by (simp_all add: round_double_eval)

lemma nernst_double_at_tenth:
  "nernst_compensation round_double (3602879701896397 / 36028797018963968) 25
     = 450359962737051 / 4503599627370496"
proof -
  have two: "(2.0::real) = 2" by simp
  show ?thesis
    unfolding nernst_compensation_def Let_def
    by (simp only: two double_literals nernst_slope_steps nernst_reading_steps)
qed

lemma nernst_exact_at_25: "nernst_compensation (\<lambda>x. x) v 25 = v"
  by (simp add: nernst_compensation_def field_simps)

text \<open>
  Claim C6, as stated, fails in the pH branch. The reading is the double written
  \<^verbatim>\<open>0.1\<close>; at a temperature of 25.0 the sum \<^verbatim>\<open>25.0 + 273.15\<close> is the double
  \<^verbatim>\<open>298.15\<close>, but the product with the slope and the quotient are rounded, the
  adjusted slope is \<^verbatim>\<open>-59.15999999999999\<close>, and the branch returns
  \<^verbatim>\<open>0.10000000000000031\<close>, not the reading.
\<close>

theorem ph_identity_counterexample:
  "round_double 0.1 = 3602879701896397 / 36028797018963968
   \<and> apply_temperature_compensation (round_double 0.1) 25 ''pH'' None
       = Inr (450359962737051 / 4503599627370496)
   \<and> (450359962737051 / 4503599627370496 :: real) \<noteq> 3602879701896397 / 36028797018963968"
  by (simp add: apply_temperature_compensation_def truthy_def double_literals(1)
      nernst_double_at_tenth)

text \<open>
  Claim C6, amended. At a temperature of exactly 25 the compensation returns the
  reading unchanged for each electrode type of the table, for conductivity, and in the
  default branch, which is taken by any other sensor type and by an electrode without
  an electrode type. The formula of the pH branch returns the reading at 25 when it is
  evaluated in exact arithmetic, without rounding.
\<close>

theorem temperature_compensation_identity_at_25:
  "(map_of electrode_standards e \<noteq> None \<longrightarrow>
      apply_temperature_compensation v 25 ''electrode'' (Some e) = Inr v)
   \<and> apply_temperature_compensation v 25 ''conductivity'' None = Inr v
   \<and> nernst_compensation (\<lambda>x. x) v 25 = v
   \<and> (st \<noteq> ''electrode'' \<and> st \<noteq> ''pH'' \<and> st \<noteq> ''conductivity'' \<longrightarrow>
        apply_temperature_compensation v 25 st et = Inr v)
   \<and> (\<not> truthy et \<longrightarrow> apply_temperature_compensation v 25 ''electrode'' et = Inr v)"
  using compensation_electrode_25 [of e v] compensation_conductivity_25 [of v None]
    nernst_exact_at_25 [of v] compensation_default_25 [of st et v]
    compensation_default_25 [of "''electrode''" et v]
  by simp

theorem temperature_compensation_identity_at_25_witness:
  "map_of electrode_standards ''Pt'' \<noteq> None
   \<and> apply_temperature_compensation 2 25 ''electrode'' (Some ''Pt'') = Inr 2
   \<and> apply_temperature_compensation 2 25 ''conductivity'' None = Inr 2
   \<and> nernst_compensation (\<lambda>x. x) 2 25 = 2
   \<and> apply_temperature_compensation 2 25 ''humidity'' None = Inr 2
   \<and> \<not> truthy None
   \<and> apply_temperature_compensation 2 25 ''electrode'' None = Inr 2"
  using temperature_compensation_identity_at_25 [of "''Pt''" 2 "''humidity''" None]
  by (simp add: electrode_standards_def truthy_def)

section \<open>Unknown configurations\<close>

lemma compensation_KeyError_iff:
  "apply_temperature_compensation r t st et = Inl (KeyError k) \<longleftrightarrow>
     st = ''electrode'' \<and> truthy et \<and> the et = k \<and> map_of electrode_standards k = None"
  by (auto simp: apply_temperature_compensation_def electrode_standard_of_def Let_def
        split: option.splits if_splits)

lemma threshold_error_iff:
  "drift_threshold_of st et = Inl e \<longleftrightarrow>
     st = ''electrode'' \<and> truthy et \<and> map_of electrode_standards (the et) = None
       \<and> e = KeyError (the et)"
  by (auto simp: drift_threshold_of_def electrode_standard_of_def split: option.splits if_splits)

lemma detect_error_iff:
  "detect_sensor_drift xs st et = Inl e \<longleftrightarrow>
     10 \<le> length xs \<and> st = ''electrode'' \<and> truthy et
       \<and> map_of electrode_standards (the et) = None \<and> e = KeyError (the et)"
proof (cases "drift_threshold_of st et")
  case (Inl e')
  then show ?thesis
    using threshold_error_iff [of st et e']
    by (auto simp: detect_sensor_drift_def Let_def)
next
  case (Inr th)
  then show ?thesis
    using threshold_error_iff [of st et e]
    by (auto simp: detect_sensor_drift_def Let_def)
qed

lemma compensation_unknown_sensor:
  "st \<noteq> ''electrode'' \<Longrightarrow> st \<notin> set environmental_standards \<Longrightarrow>
     apply_temperature_compensation r t st et = Inr (r - (- 0.001 * (t - 25)))"
  by (simp add: environmental_standards_def apply_temperature_compensation_def)

lemma threshold_unknown_sensor:
  "st \<noteq> ''electrode'' \<Longrightarrow> st \<notin> set environmental_standards \<Longrightarrow>
     drift_threshold_of st et = Inr 0.01"
  by (simp add: environmental_standards_def drift_threshold_of_def)

text \<open>
  Claim C7, as stated, fails: a sensor type that is in no part of the table
  (\<^verbatim>\<open>humidity\<close>) does not make \<^verbatim>\<open>apply_temperature_compensation\<close> raise; the reading is
  compensated with the default coefficient.
\<close>

theorem unknown_sensor_type_counterexample:
  "''humidity'' \<noteq> ''electrode'' \<and> ''humidity'' \<notin> set environmental_standards
   \<and> apply_temperature_compensation 2 30 ''humidity'' None = Inr 2.005"
  by (simp add: environmental_standards_def apply_temperature_compensation_def truthy_def)

text \<open>
  Claim C7, amended. \<^verbatim>\<open>apply_temperature_compensation\<close> raises \<^verbatim>\<open>KeyError\<close> exactly
  when the sensor type is \<^verbatim>\<open>electrode\<close> and the electrode type is a non-empty string
  that is not a key of the electrode table; \<^verbatim>\<open>detect_sensor_drift\<close> raises exactly
  then, provided the series has at least 10 samples, and has no other failure. A sensor
  type that is neither \<^verbatim>\<open>electrode\<close> nor a key of the environmental table never
  fails: the compensation uses the default coefficient and the drift threshold is the
  default 0.01.
\<close>

theorem unknown_electrode_type_raises:
  "(apply_temperature_compensation r t st et = Inl (KeyError k) \<longleftrightarrow>
      st = ''electrode'' \<and> truthy et \<and> the et = k \<and> map_of electrode_standards k = None)
   \<and> (detect_sensor_drift xs st et = Inl e \<longleftrightarrow>
        10 \<le> length xs \<and> st = ''electrode'' \<and> truthy et
          \<and> map_of electrode_standards (the et) = None \<and> e = KeyError (the et))
   \<and> (st \<noteq> ''electrode'' \<and> st \<notin> set environmental_standards \<longrightarrow>
        apply_temperature_compensation r t st et = Inr (r - (- 0.001 * (t - 25)))
        \<and> drift_threshold_of st et = Inr 0.01)"
  using compensation_KeyError_iff [of r t st et k] detect_error_iff [of xs st et e]
    compensation_unknown_sensor [of st r t et] threshold_unknown_sensor [of st et]
  by blast

theorem unknown_electrode_type_raises_witness:
  "apply_temperature_compensation 2 30 ''electrode'' (Some ''Au'') = Inl (KeyError ''Au'')
   \<and> detect_sensor_drift [1, 2, 3, 4, 5, 6, 7, 8, 9, 10] ''electrode'' (Some ''Au'')
       = Inl (KeyError ''Au'')
   \<and> ''humidity'' \<noteq> ''electrode'' \<and> ''humidity'' \<notin> set environmental_standards
   \<and> apply_temperature_compensation 2 30 ''humidity'' (Some ''Au'') = Inr (2 - (- 0.001 * (30 - 25)))
   \<and> drift_threshold_of ''humidity'' (Some ''Au'') = Inr 0.01"
proof -
  have au: "truthy (Some ''Au'')" "the (Some ''Au'') = ''Au''"
    "map_of electrode_standards ''Au'' = None"
    by (simp_all add: truthy_def electrode_standards_def)
  have len: "10 \<le> length [1, 2, 3, 4, 5, 6, 7, 8, 9, 10 :: real]"
    by simp
  have hum: "''humidity'' \<noteq> ''electrode''" "''humidity'' \<notin> set environmental_standards"
    by (simp_all add: environmental_standards_def)
  note t1 = unknown_electrode_type_raises
      [of 2 30 "''electrode''" "Some ''Au''" "''Au''" "[1, 2, 3, 4, 5, 6, 7, 8, 9, 10]"
        "KeyError ''Au''"]
  note t2 = unknown_electrode_type_raises
      [of 2 30 "''humidity''" "Some ''Au''" "''Au''" "[]" "KeyError ''Au''"]
  have a: "apply_temperature_compensation 2 30 ''electrode'' (Some ''Au'') = Inl (KeyError ''Au'')"
    using t1 au by blast
  have b: "detect_sensor_drift [1, 2, 3, 4, 5, 6, 7, 8, 9, 10] ''electrode'' (Some ''Au'')
       = Inl (KeyError ''Au'')"
    using t1 au len unfolding option.sel by blast
  have c: "apply_temperature_compensation 2 30 ''humidity'' (Some ''Au'') = Inr (2 - (- 0.001 * (30 - 25)))
     \<and> drift_threshold_of ''humidity'' (Some ''Au'') = Inr 0.01"
    using t2 hum by blast
  show ?thesis
    using a b c hum by blast
qed

section \<open>The Kalman filter as a recursion over the samples\<close>

lemma length_spec_kalman_steps:
  "length (spec_kalman_steps q r e c zs) = length zs"
  by (induction zs arbitrary: e c) (simp_all add: Let_def)

lemma kalman_step_fields:
  "x_est (kalman_step ms q r i s)
     = x_est s + (p_est s + q) / (p_est s + q + r) * (ms ! i - x_est s)"
  "p_est (kalman_step ms q r i s)
     = (1 - (p_est s + q) / (p_est s + q + r)) * (p_est s + q)"
  "filtered (kalman_step ms q r i s)
     = (filtered s)[i := x_est (kalman_step ms q r i s)]"
  by (simp_all add: kalman_step_def Let_def)

text \<open>
  The loop from index \<open>k\<close> on leaves the first \<open>k\<close> cells of \<^verbatim>\<open>filtered\<close> alone and
  fills the others with the running estimates of the remaining samples.
\<close>

lemma kalman_loop_upt:
  "k \<le> n \<Longrightarrow> length (filtered s) = n \<Longrightarrow> length ms = n \<Longrightarrow>
     filtered (kalman_loop ms q r [k..<n] s)
       = take k (filtered s) @ spec_kalman_steps q r (x_est s) (p_est s) (drop k ms)"
proof (induction "n - k" arbitrary: k s)
  case 0
  then show ?case by simp
next
  case (Suc d)
  then have kn: "k < n" by simp
  let ?s = "kalman_step ms q r k s"
  have len: "length (filtered ?s) = n"
    using Suc.prems by (simp add: kalman_step_fields)
  have ih: "filtered (kalman_loop ms q r [Suc k..<n] ?s)
       = take (Suc k) (filtered ?s) @ spec_kalman_steps q r (x_est ?s) (p_est ?s) (drop (Suc k) ms)"
    using Suc.hyps(1) [of "Suc k" ?s] Suc.hyps(2) kn len Suc.prems by simp
  have tk: "take (Suc k) (filtered ?s) = take k (filtered s) @ [x_est ?s]"
    using kn Suc.prems by (simp add: kalman_step_fields take_Suc_conv_app_nth)
  have dr: "drop k ms = ms ! k # drop (Suc k) ms"
    using kn Suc.prems by (simp add: Cons_nth_drop_Suc)
  have st: "spec_kalman_steps q r (x_est s) (p_est s) (ms ! k # drop (Suc k) ms)
      = x_est ?s # spec_kalman_steps q r (x_est ?s) (p_est ?s) (drop (Suc k) ms)"
    by (simp add: Let_def kalman_step_fields mult.commute)
  show ?case
    using kn ih tk dr st by (simp add: upt_conv_Cons)
qed

lemma kalman_filter_as_steps:
  assumes "3 \<le> length ms"
  shows "kalman_filter_enhancement ms st
     = spec_kalman_steps (fst (kalman_noise st)) (snd (kalman_noise st)) (ms ! 0) 1 ms"
proof -
  obtain q r where qr: "kalman_noise st = (q, r)" by (cases "kalman_noise st")
  show ?thesis
    using assms qr
      kalman_loop_upt [of 0 "length ms"
        "\<lparr>x_est = ms ! 0, p_est = 1, filtered = replicate (length ms) 0\<rparr>" ms q r]
    by (simp add: kalman_filter_enhancement_def Let_def)
qed

text \<open>
  Claim C2, as stated, fails: on the series 0, 1, 1 of an electrode the code does not
  return the estimates obtained by filtering the samples after the first only. The loop
  also runs its predict and update steps on the first sample, which leaves the estimate
  alone but shrinks the covariance from 1 to about the measurement noise, so the gain
  at the second sample is about 0.5 and not about 1.
\<close>

theorem kalman_subsequent_only_counterexample:
  "3 \<le> length [0, 1, 1 :: real]
   \<and> kalman_filter_enhancement [0, 1, 1] ''electrode''
       \<noteq> spec_kalman_subsequent [0, 1, 1] ''electrode''"
  by (simp add: kalman_filter_enhancement_def spec_kalman_subsequent_def kalman_noise_def
      kalman_step_def Let_def upt_rec)

text \<open>
  Claim C2, amended. For every series of length at least 3 and every sensor type,
  \<^verbatim>\<open>kalman_filter_enhancement\<close> returns the running estimates obtained by starting from
  the estimate \<open>series[0]\<close> and the covariance 1 and performing the predict step and the
  update step for every sample, the first included, with the noise constants selected
  by the sensor type.
\<close>

theorem kalman_filter_every_sample:
  assumes "3 \<le> length ms"
  shows "kalman_filter_enhancement ms st = spec_kalman_every ms st"
proof -
  have "ms \<noteq> []" using assms by auto
  then have "hd ms = ms ! 0" by (simp add: hd_conv_nth)
  then show ?thesis
    using kalman_filter_as_steps [OF assms, of st]
    by (simp add: spec_kalman_every_def split_beta)
qed

theorem kalman_filter_every_sample_witness:
  "3 \<le> length [0, 1, 1 :: real]
   \<and> kalman_filter_enhancement [0, 1, 1] ''electrode'' = spec_kalman_every [0, 1, 1] ''electrode''"
  using kalman_filter_every_sample [of "[0, 1, 1]" "''electrode''"] by simp

text \<open>
  Claim C10. For every series of length at least 3 and every sensor type, the first
  element of the filtered series is the first element of the input (the innovation of
  the first step is zero), and the filtered series is as long as the input.
\<close>

theorem kalman_first_and_length:
  assumes "3 \<le> length ms"
  shows "hd (kalman_filter_enhancement ms st) = hd ms
      \<and> length (kalman_filter_enhancement ms st) = length ms"
proof -
  obtain z zs where ms: "ms = z # zs" using assms by (cases ms) auto
  show ?thesis
    using kalman_filter_as_steps [OF assms, of st]
    by (simp add: ms Let_def length_spec_kalman_steps)
qed

theorem kalman_first_and_length_witness:
  "3 \<le> length [5, 1, 7 :: real]
   \<and> hd (kalman_filter_enhancement [5, 1, 7] ''pH'') = hd [5, 1, 7 :: real]
   \<and> length (kalman_filter_enhancement [5, 1, 7] ''pH'') = length [5, 1, 7 :: real]"
  using kalman_first_and_length [of "[5, 1, 7]" "''pH''"] by simp

section \<open>The drift analysis and its confidence\<close>

lemma detect_unfold:
  assumes "10 \<le> length xs" and "drift_threshold_of st et = Inr th"
  shows "detect_sensor_drift xs st et = Inr (Drift_analysis
     (let n_samples = length xs;
          slope = calculate_linear_trend (np_arange n_samples) xs;
          cusum = calculate_cusum xs;
          mr = calculate_moving_range_stats (map abs (np_diff xs));
          spc = statistical_process_control xs;
          drift_rate = slope * 3600 / real n_samples;
          indicators =
             \<lparr>linear_trend = (\<bar>drift_rate\<bar> > th),
              cusum_alarm = alarm_triggered cusum,
              range_alarm = mr_out_of_control mr,
              spc_alarm = spc_out_of_control spc\<rparr>;
          confidence = real (length (filter id (indicator_values indicators))) / 4;
          detected = (confidence \<ge> 0.4)
      in \<lparr>drift_detected = detected,
          drift_confidence = confidence,
          drift_rate_per_hour = drift_rate,
          linear_slope = slope,
          cusum_statistics = cusum,
          moving_range_statistics = mr,
          spc_statistics = spc,
          individual_indicators = indicators,
          drift_recommendation = generate_drift_recommendation detected confidence drift_rate\<rparr>))"
proof -
  have n: "\<not> length xs < 10" "1 < length xs" using assms(1) by simp_all
  have l4: "\<And>d. real (length (indicator_values d)) = 4"
    by (simp add: indicator_values_def)
  show ?thesis
    unfolding detect_sensor_drift_def Let_def
    by (simp only: n assms(2) if_False if_True sum.case l4)
qed


lemma detect_analysis:
  assumes "10 \<le> length xs" and "drift_threshold_of st et = Inr th"
  shows "\<exists>r. detect_sensor_drift xs st et = Inr (Drift_analysis r)
     \<and> drift_confidence r
         = real (length (filter id (indicator_values (individual_indicators r)))) / 4
     \<and> drift_detected r = (drift_confidence r \<ge> 0.4)
     \<and> linear_trend (individual_indicators r) = (\<bar>drift_rate_per_hour r\<bar> > th)
     \<and> cusum_alarm (individual_indicators r) = alarm_triggered (cusum_statistics r)
     \<and> range_alarm (individual_indicators r) = mr_out_of_control (moving_range_statistics r)
     \<and> spc_alarm (individual_indicators r) = spc_out_of_control (spc_statistics r)
     \<and> drift_rate_per_hour r = linear_slope r * 3600 / real (length xs)
     \<and> linear_slope r = calculate_linear_trend (np_arange (length xs)) xs
     \<and> cusum_statistics r = calculate_cusum xs
     \<and> moving_range_statistics r = calculate_moving_range_stats (map abs (np_diff xs))
     \<and> spc_statistics r = statistical_process_control xs"
  unfolding detect_unfold [OF assms] Let_def
  apply (rule exI)
  apply (intro conjI)
  apply (rule refl)
  apply (simp_all only: drift_analysis.simps drift_indicators.simps)
  done


lemma threshold_known:
  assumes "st = ''electrode'' \<and> truthy et \<longrightarrow> map_of electrode_standards (the et) \<noteq> None"
  shows "\<exists>th. drift_threshold_of st et = Inr th"
proof (cases "drift_threshold_of st et")
  case (Inl e)
  then have "map_of electrode_standards (the et) = None" "st = ''electrode''" "truthy et"
    by (simp_all only: threshold_error_iff)
  with assms show ?thesis by blast
next
  case (Inr th)
  then show ?thesis by blast
qed


text \<open>
  Claim C5. For every series of at least 10 samples and every configuration whose
  electrode type, when one is used, is in the reference table, \<^verbatim>\<open>detect_sensor_drift\<close>
  returns an analysis whose confidence is the number of true indicators among the four
  divided by 4, and whose \<^verbatim>\<open>drift_detected\<close> holds exactly when that confidence is at
  least 0.4.
\<close>

theorem drift_confidence_invariant:
  assumes "10 \<le> length xs"
    and "st = ''electrode'' \<and> truthy et \<longrightarrow> map_of electrode_standards (the et) \<noteq> None"
  shows "\<exists>r. detect_sensor_drift xs st et = Inr (Drift_analysis r)
     \<and> drift_confidence r
         = real (length (filter id (indicator_values (individual_indicators r)))) / 4
     \<and> (drift_detected r \<longleftrightarrow> drift_confidence r \<ge> 0.4)"
proof -
  obtain th where th: "drift_threshold_of st et = Inr th"
    using threshold_known [OF assms(2)] by (elim exE)
  have "\<exists>r. detect_sensor_drift xs st et = Inr (Drift_analysis r)
     \<and> drift_confidence r
         = real (length (filter id (indicator_values (individual_indicators r)))) / 4
     \<and> drift_detected r = (drift_confidence r \<ge> 0.4)"
    using detect_analysis [OF assms(1) th] by (elim exE conjE, intro exI conjI)
  then show ?thesis .
qed

theorem drift_confidence_invariant_witness:
  "10 \<le> length [1, 2, 3, 4, 5, 6, 7, 8, 9, 10 :: real]
   \<and> map_of electrode_standards (the (Some ''Pt'')) \<noteq> None
   \<and> (\<exists>r. detect_sensor_drift [1, 2, 3, 4, 5, 6, 7, 8, 9, 10] ''electrode'' (Some ''Pt'')
          = Inr (Drift_analysis r)
     \<and> drift_confidence r
         = real (length (filter id (indicator_values (individual_indicators r)))) / 4
     \<and> (drift_detected r \<longleftrightarrow> drift_confidence r \<ge> 0.4))"
proof (intro conjI)
  show len: "10 \<le> length [1, 2, 3, 4, 5, 6, 7, 8, 9, 10 :: real]"
    by simp
  show pt: "map_of electrode_standards (the (Some ''Pt'')) \<noteq> None"
    by (simp add: electrode_standards_def)
  show "\<exists>r. detect_sensor_drift [1, 2, 3, 4, 5, 6, 7, 8, 9, 10] ''electrode'' (Some ''Pt'')
          = Inr (Drift_analysis r)
     \<and> drift_confidence r
         = real (length (filter id (indicator_values (individual_indicators r)))) / 4
     \<and> (drift_detected r \<longleftrightarrow> drift_confidence r \<ge> 0.4)"
    using pt by (intro drift_confidence_invariant len impI)
qed

section \<open>Constant series\<close>

lemma np_mean_replicate: "0 < n \<Longrightarrow> np_mean (replicate n c) = c"
  by (simp add: np_mean_def sum_list_replicate)

lemma np_std_replicate: "0 < n \<Longrightarrow> np_std (replicate n c) = 0"
  by (simp add: np_std_def Let_def np_mean_replicate)

lemma sum_list_times_replicate:
  "sum_list (map2 (*) xs (replicate (length xs) c)) = sum_list xs * (c::real)"
  by (simp add: zip_replicate2 sum_list_mult_const o_def)

lemma linear_trend_replicate:
  "calculate_linear_trend (np_arange n) (replicate n c) = 0"
proof -
  have len: "length (np_arange n) = n" by (simp add: np_arange_def)
  have "sum_list (map2 (*) (np_arange n) (replicate n c)) = sum_list (np_arange n) * c"
    using sum_list_times_replicate [of "np_arange n" c] by (simp add: len)
  then show ?thesis
    by (simp add: calculate_linear_trend_def Let_def len sum_list_replicate)
qed

lemma cusum_loop_zeros:
  "\<forall>i \<in> set is. i < n \<Longrightarrow>
     cusum_loop (replicate n 0) (1/2) is (replicate n 0, replicate n 0)
       = (replicate n 0, replicate n 0)"
proof (induction "is")
  case Nil
  then show ?case by simp
next
  case (Cons i "is")
  then have i: "i < n" "i - 1 < n" by auto
  have upd: "(replicate n (0::real))[i := 0] = replicate n 0"
    using i by (simp add: list_update_same_conv)
  show ?case
    using Cons i by (simp add: upd)
qed

lemma calculate_cusum_replicate:
  assumes "0 < n"
  shows "alarm_triggered (calculate_cusum (replicate n c)) = False"
proof -
  have m: "0 < min 10 n" using assms by simp
  have dev: "map (\<lambda>x. (x - c) / max 0 (1 / 1000000)) (replicate n c) = replicate n (0::real)"
    by simp
  have loop: "cusum_loop (replicate n 0) (1/2) [1..<n] (replicate n 0, replicate n 0)
       = (replicate n 0, replicate n 0)"
    by (rule cusum_loop_zeros) simp
  show ?thesis
    using m loop
    by (simp add: calculate_cusum_def Let_def np_mean_replicate np_std_replicate min_def)
qed

lemma np_diff_replicate: "map abs (np_diff (replicate n c)) = replicate (n - 1) 0"
  by (simp add: np_diff_def zip_replicate)

lemma moving_range_replicate_zero:
  assumes "0 < m"
  shows "mr_out_of_control (calculate_moving_range_stats (replicate m 0)) = False"
  using assms
  by (simp add: calculate_moving_range_stats_def Let_def np_mean_replicate np_where_def)

lemma rule2_loop_all_below:
  "9 \<le> cb + m \<Longrightarrow> cb < 9 \<Longrightarrow> rule2_loop (replicate m False) ca cb = True"
proof (induction m arbitrary: ca cb)
  case 0
  then show ?case by simp
next
  case (Suc m)
  show ?case
  proof (cases "cb + 1 \<ge> 9")
    case True
    then show ?thesis by simp
  next
    case False
    then have "rule2_loop (replicate m False) 0 (cb + 1) = True"
      using Suc.prems by (intro Suc.IH) simp_all
    with False show ?thesis by simp
  qed
qed

lemma spc_replicate:
  assumes "9 \<le> n"
  shows "rule2_violation (statistical_process_control (replicate n c)) = True"
    and "spc_out_of_control (statistical_process_control (replicate n c)) = True"
proof -
  have n: "0 < n" using assms by simp
  have r: "rule2_loop (replicate n False) 0 0 = True"
    using assms by (intro rule2_loop_all_below) simp_all
  show "rule2_violation (statistical_process_control (replicate n c)) = True"
    using r by (simp add: statistical_process_control_def Let_def np_mean_replicate [OF n])
  show "spc_out_of_control (statistical_process_control (replicate n c)) = True"
    using r by (simp add: statistical_process_control_def Let_def np_mean_replicate [OF n])
qed

lemma threshold_positive: "drift_threshold_of st et = Inr th \<Longrightarrow> 0 < th"
  by (auto simp: drift_threshold_of_def electrode_standard_of_def electrode_standards_def
      ph_standards_def split: if_splits option.splits)

lemma constant_series_analysis:
  assumes n: "10 \<le> n" and th: "drift_threshold_of st et = Inr th"
  shows "\<exists>r. detect_sensor_drift (replicate n c) st et = Inr (Drift_analysis r)
     \<and> individual_indicators r
          = \<lparr>linear_trend = False, cusum_alarm = False, range_alarm = False, spc_alarm = True\<rparr>
     \<and> rule2_violation (spc_statistics r)
     \<and> drift_confidence r = 1 / 4
     \<and> \<not> drift_detected r"
proof -
  have len: "10 \<le> length (replicate n c)" using n by simp
  obtain r where r: "detect_sensor_drift (replicate n c) st et = Inr (Drift_analysis r)"
    and conf: "drift_confidence r
         = real (length (filter id (indicator_values (individual_indicators r)))) / 4"
    and det: "drift_detected r = (drift_confidence r \<ge> 0.4)"
    and lin: "linear_trend (individual_indicators r) = (\<bar>drift_rate_per_hour r\<bar> > th)"
    and cus: "cusum_alarm (individual_indicators r) = alarm_triggered (cusum_statistics r)"
    and ran: "range_alarm (individual_indicators r) = mr_out_of_control (moving_range_statistics r)"
    and spc: "spc_alarm (individual_indicators r) = spc_out_of_control (spc_statistics r)"
    and rate: "drift_rate_per_hour r = linear_slope r * 3600 / real (length (replicate n c))"
    and slope: "linear_slope r
         = calculate_linear_trend (np_arange (length (replicate n c))) (replicate n c)"
    and cs: "cusum_statistics r = calculate_cusum (replicate n c)"
    and ms: "moving_range_statistics r
         = calculate_moving_range_stats (map abs (np_diff (replicate n c)))"
    and ss: "spc_statistics r = statistical_process_control (replicate n c)"
    using detect_analysis [OF len th] by (elim exE conjE)
  have "linear_slope r = 0"
    by (simp add: slope linear_trend_replicate)
  then have l: "linear_trend (individual_indicators r) = False"
    using threshold_positive [OF th] by (simp add: lin rate)
  have c: "cusum_alarm (individual_indicators r) = False"
    using n by (simp add: cus cs calculate_cusum_replicate)
  have m: "range_alarm (individual_indicators r) = False"
    using n by (simp add: ran ms np_diff_replicate moving_range_replicate_zero)
  have s: "spc_alarm (individual_indicators r) = True" "rule2_violation (spc_statistics r)"
    using n by (simp_all add: spc ss spc_replicate)
  have ind: "individual_indicators r
          = \<lparr>linear_trend = False, cusum_alarm = False, range_alarm = False, spc_alarm = True\<rparr>"
    using l c m s(1) by (cases "individual_indicators r") simp
  have cf: "drift_confidence r = 1 / 4"
    by (simp add: conf ind indicator_values_def)
  have nd: "\<not> drift_detected r"
    by (simp add: det cf)
  show ?thesis
    using r ind s(2) cf nd by (intro exI [of _ r] conjI)
qed

text \<open>
  Claim C1, evaluated on the code: on the constant series of ten readings 2.0 of a
  platinum electrode the trend, CUSUM and moving-range indicators are false, but the
  run rule fires, because a point equal to the mean is not above it and the loop counts
  every point that is not above as below. The confidence is 1/4, not 0; the drift is
  not detected.
\<close>

theorem constant_series_confidence_quarter:
  "\<exists>r. detect_sensor_drift [2, 2, 2, 2, 2, 2, 2, 2, 2, 2] ''electrode'' (Some ''Pt'')
          = Inr (Drift_analysis r)
     \<and> individual_indicators r
          = \<lparr>linear_trend = False, cusum_alarm = False, range_alarm = False, spc_alarm = True\<rparr>
     \<and> rule2_violation (spc_statistics r)
     \<and> drift_confidence r = 1 / 4
     \<and> \<not> drift_detected r"
proof -
  have th: "drift_threshold_of ''electrode'' (Some ''Pt'') = Inr (0.003 / 30)"
    by (simp add: drift_threshold_of_def truthy_def electrode_standard_of_def
        electrode_standards_def)
  have rep: "replicate 10 (2::real) = [2, 2, 2, 2, 2, 2, 2, 2, 2, 2]"
    by (simp add: numeral_eq_Suc)
  have "(10::nat) \<le> 10" by simp
  from constant_series_analysis [OF this th, of 2] show ?thesis
    unfolding rep .
qed

section \<open>The correlation coefficient is at most 1\<close>

lemma sum_list_square_expand:
  fixes f g :: "'a \<Rightarrow> real"
  shows "(\<Sum>p\<leftarrow>ps. (f p * t + g p)\<^sup>2)
     = t\<^sup>2 * (\<Sum>p\<leftarrow>ps. (f p)\<^sup>2) + 2 * t * (\<Sum>p\<leftarrow>ps. f p * g p) + (\<Sum>p\<leftarrow>ps. (g p)\<^sup>2)"
  by (induction ps) (simp_all add: algebra_simps power2_eq_square)

lemma sum_list_squares_nonneg:
  fixes f :: "'a \<Rightarrow> real"
  shows "0 \<le> (\<Sum>p\<leftarrow>ps. (f p)\<^sup>2)"
  by (induction ps) simp_all

lemma quadratic_nonneg_discriminant:
  fixes A B C :: real
  assumes q: "\<And>t. 0 \<le> t\<^sup>2 * A + 2 * t * C + B" and A: "0 \<le> A"
  shows "C\<^sup>2 \<le> A * B"
proof (cases "A = 0")
  case True
  have "C = 0"
  proof (rule ccontr)
    assume c: "C \<noteq> 0"
    have "0 \<le> 2 * (- (B + 1) / (2 * C)) * C + B"
      using q [of "- (B + 1) / (2 * C)"] True by simp
    with c show False by (simp add: field_simps)
  qed
  with True show ?thesis by simp
next
  case False
  then have pos: "0 < A" using A by simp
  have "0 \<le> (- C / A)\<^sup>2 * A + 2 * (- C / A) * C + B"
    by (rule q)
  also have "(- C / A)\<^sup>2 * A + 2 * (- C / A) * C + B = B - C\<^sup>2 / A"
    using pos by (simp add: field_simps power2_eq_square)
  finally have "C\<^sup>2 / A \<le> B" by simp
  then show ?thesis
    using pos by (simp add: field_simps)
qed

lemma cauchy_schwarz_list:
  fixes f g :: "'a \<Rightarrow> real"
  shows "(\<Sum>p\<leftarrow>ps. f p * g p)\<^sup>2 \<le> (\<Sum>p\<leftarrow>ps. (f p)\<^sup>2) * (\<Sum>p\<leftarrow>ps. (g p)\<^sup>2)"
proof (rule quadratic_nonneg_discriminant)
  fix t :: real
  have "0 \<le> (\<Sum>p\<leftarrow>ps. (f p * t + g p)\<^sup>2)"
    by (rule sum_list_squares_nonneg)
  then show "0 \<le> t\<^sup>2 * (\<Sum>p\<leftarrow>ps. (f p)\<^sup>2) + 2 * t * (\<Sum>p\<leftarrow>ps. f p * g p) + (\<Sum>p\<leftarrow>ps. (g p)\<^sup>2)"
    by (simp only: sum_list_square_expand)
next
  show "0 \<le> (\<Sum>p\<leftarrow>ps. (f p)\<^sup>2)"
    by (rule sum_list_squares_nonneg)
qed

text \<open>The covariance as a sum over the zipped lists.\<close>

lemma np_cov_zip:
  "np_cov xs ys = (\<Sum>p\<leftarrow>zip xs ys. (fst p - np_mean xs) * (snd p - np_mean ys)) / (real (length xs) - 1)"
  by (simp add: np_cov_def Let_def split_def)

lemma np_cov_self:
  "np_cov xs xs = (\<Sum>x\<leftarrow>xs. (x - np_mean xs)\<^sup>2) / (real (length xs) - 1)"
proof -
  have "zip xs xs = map (\<lambda>x. (x, x)) xs" by (induction xs) simp_all
  then show ?thesis
    by (simp add: np_cov_def Let_def o_def power2_eq_square)
qed

lemma np_cov_self_zip1:
  assumes "length xs = length ys"
  shows "np_cov xs xs = (\<Sum>p\<leftarrow>zip xs ys. (fst p - np_mean xs)\<^sup>2) / (real (length xs) - 1)"
proof -
  have m: "map fst (zip xs ys) = xs" using assms by simp
  have "(\<Sum>p\<leftarrow>zip xs ys. (fst p - np_mean xs)\<^sup>2)
      = (\<Sum>x\<leftarrow>map fst (zip xs ys). (x - np_mean xs)\<^sup>2)"
    by (simp only: map_map o_def)
  then show ?thesis
    by (simp only: m np_cov_self)
qed

lemma np_cov_self_zip2:
  assumes "length xs = length ys"
  shows "np_cov ys ys = (\<Sum>p\<leftarrow>zip xs ys. (snd p - np_mean ys)\<^sup>2) / (real (length xs) - 1)"
proof -
  have m: "map snd (zip xs ys) = ys" using assms by simp
  have "(\<Sum>p\<leftarrow>zip xs ys. (snd p - np_mean ys)\<^sup>2)
      = (\<Sum>y\<leftarrow>map snd (zip xs ys). (y - np_mean ys)\<^sup>2)"
    by (simp only: map_map o_def)
  then show ?thesis
    by (simp only: m np_cov_self assms)
qed

lemma np_cov_self_nonneg: "0 \<le> np_cov xs xs"
proof (cases xs)
  case Nil
  then show ?thesis by (simp add: np_cov_self)
next
  case (Cons x xs')
  then have "0 \<le> real (length xs) - 1" by simp
  then show ?thesis
    by (simp only: np_cov_self) (intro divide_nonneg_nonneg sum_list_squares_nonneg)
qed

lemma np_cov_cauchy_schwarz:
  assumes "length xs = length ys"
  shows "(np_cov xs ys)\<^sup>2 \<le> np_cov xs xs * np_cov ys ys"
proof -
  let ?d = "real (length xs) - 1"
  let ?C = "\<Sum>p\<leftarrow>zip xs ys. (fst p - np_mean xs) * (snd p - np_mean ys)"
  let ?A = "\<Sum>p\<leftarrow>zip xs ys. (fst p - np_mean xs)\<^sup>2"
  let ?B = "\<Sum>p\<leftarrow>zip xs ys. (snd p - np_mean ys)\<^sup>2"
  have cs: "?C\<^sup>2 \<le> ?A * ?B"
    by (rule cauchy_schwarz_list)
  have "(np_cov xs ys)\<^sup>2 = ?C\<^sup>2 / ?d\<^sup>2"
    by (simp only: np_cov_zip power_divide)
  also have "\<dots> \<le> (?A * ?B) / ?d\<^sup>2"
    using cs by (rule divide_right_mono) simp
  also have "\<dots> = (?A / ?d) * (?B / ?d)"
    by (simp add: power2_eq_square)
  also have "\<dots> = np_cov xs xs * np_cov ys ys"
    by (simp only: np_cov_self_zip1 [OF assms] np_cov_self_zip2 [OF assms])
  finally show ?thesis .
qed

lemma np_corrcoef_unfold:
  "np_corrcoef xs ys =
     (if sqrt (np_cov xs xs) = 0 \<or> sqrt (np_cov ys ys) = 0 then None
      else Some (np_cov xs ys / sqrt (np_cov xs xs) / sqrt (np_cov ys ys)))"
  by (simp add: np_corrcoef_def Let_def np_divide_def)

lemma np_corrcoef_le_1:
  assumes len: "length xs = length ys" and c: "np_corrcoef xs ys = Some q"
  shows "q \<le> 1"
proof -
  define a where "a = np_cov xs xs"
  define b where "b = np_cov ys ys"
  define k where "k = np_cov xs ys"
  have cs: "k\<^sup>2 \<le> a * b"
    unfolding a_def b_def k_def by (rule np_cov_cauchy_schwarz [OF len])
  have ab: "0 \<le> a" "0 \<le> b"
    unfolding a_def b_def by (rule np_cov_self_nonneg)+
  have "(if sqrt a = 0 \<or> sqrt b = 0 then None else Some (k / sqrt a / sqrt b)) = Some q"
    using c unfolding a_def b_def k_def by (simp only: np_corrcoef_unfold)
  then have nz: "sqrt a \<noteq> 0" "sqrt b \<noteq> 0" and q: "q = k / sqrt a / sqrt b"
    by (simp_all split: if_splits)
  have pos: "0 < sqrt a" "0 < sqrt b"
    using nz ab by simp_all
  have "k \<le> \<bar>k\<bar>" by simp
  also have "\<bar>k\<bar> = sqrt (k\<^sup>2)" by simp
  also have "\<dots> \<le> sqrt (a * b)"
    using cs by (simp only: real_sqrt_le_iff)
  also have "\<dots> = sqrt a * sqrt b" by (simp add: real_sqrt_mult)
  finally have "k \<le> sqrt a * sqrt b" .
  then have "k / (sqrt a * sqrt b) \<le> 1"
    using pos by (simp add: field_simps)
  then show ?thesis
    by (simp add: q)
qed

section \<open>Cross validation: the collected values and the metrics\<close>

lemma collect_values_eq:
  "collect_values cr rp es (ev, av) =
     (ev @ map (\<lambda>e. the (map_of (dict_get rp ''electrode_response'' []) e))
             (filter (\<lambda>e. map_of (dict_get rp ''electrode_response'' []) e \<noteq> None) es),
      av @ map (\<lambda>e. dict_get cr (e @ ''_voltage'') 0)
             (filter (\<lambda>e. map_of (dict_get rp ''electrode_response'' []) e \<noteq> None) es))"
proof (induction es arbitrary: ev av)
  case Nil
  then show ?case by simp
next
  case (Cons e es)
  show ?case
  proof (cases "map_of (dict_get rp ''electrode_response'' []) e")
    case None
    then show ?thesis by (simp add: Cons.IH)
  next
    case (Some v)
    then show ?thesis by (simp add: Cons.IH)
  qed
qed

lemma collect_values_lengths:
  assumes "collect_values cr rp electrodes ([], []) = (ev, av)"
  shows "length ev = length (present_in_reference rp)" and "length av = length ev"
  using assms by (auto simp: collect_values_eq present_in_reference_def)

lemma fold_max_ge: "(a::real) \<le> fold max xs a"
proof (induction xs arbitrary: a)
  case Nil
  show ?case by simp
next
  case (Cons x xs)
  have "a \<le> max x a" by simp
  also have "\<dots> \<le> fold max xs (max x a)" by (rule Cons.IH)
  finally show ?case by simp
qed

lemma fold_min_le: "fold min xs (a::real) \<le> a"
proof (induction xs arbitrary: a)
  case Nil
  show ?case by simp
next
  case (Cons x xs)
  have "fold min xs (min x a) \<le> min x a" by (rule Cons.IH)
  also have "\<dots> \<le> a" by simp
  finally show ?case by simp
qed

lemma np_min_le_np_max: "xs \<noteq> [] \<Longrightarrow> np_min xs \<le> np_max xs"
proof (cases xs)
  case Nil
  assume "xs \<noteq> []"
  with Nil show ?thesis by simp
next
  case (Cons x xs')
  have "fold min xs' x \<le> x" by (rule fold_min_le)
  also have "x \<le> fold max xs' x" by (rule fold_max_ge)
  finally show ?thesis using Cons by simp
qed

lemma sum_list_nonneg_real: "(\<And>x. x \<in> set xs \<Longrightarrow> 0 \<le> (x::real)) \<Longrightarrow> 0 \<le> sum_list xs"
  by (induction xs) auto

lemma np_mean_nonneg: "(\<And>x. x \<in> set xs \<Longrightarrow> 0 \<le> x) \<Longrightarrow> 0 \<le> np_mean xs"
  by (simp add: np_mean_def sum_list_nonneg_real)

lemma max0_bounds: "0 \<le> max0 v" "(\<And>x. v = Some x \<Longrightarrow> x \<le> 1) \<Longrightarrow> max0 v \<le> 1"
  by (cases v; simp add: max0_def)+

lemma nrmse_nonneg:
  assumes "np_divide (sqrt s) (np_max es - np_min es) = Some v" and "es \<noteq> []" and "0 \<le> s"
  shows "0 \<le> v"
proof -
  have d: "np_max es - np_min es \<noteq> 0" and v: "v = sqrt s / (np_max es - np_min es)"
    using assms(1) by (simp_all add: np_divide_def split: if_splits)
  have "0 \<le> np_max es - np_min es"
    using np_min_le_np_max [OF assms(2)] by simp
  then show ?thesis
    using assms(3) by (simp add: v)
qed

lemma mean_rel_error_nonneg:
  assumes "np_mean_opt (map2 (\<lambda>e a. map_option (\<lambda>q. \<bar>q\<bar> * 100) (np_divide (a - e) e)) es as) = Some v"
  shows "0 \<le> v"
proof -
  let ?rs = "map2 (\<lambda>e a. map_option (\<lambda>q. \<bar>q\<bar> * 100) (np_divide (a - e) e)) es as"
  have none: "None \<notin> set ?rs" and v: "v = np_mean (map the ?rs)"
    using assms by (simp_all add: np_mean_opt_def split: if_splits)
  have "0 \<le> x" if "x \<in> set (map the ?rs)" for x
  proof -
    from that obtain r where r: "r \<in> set ?rs" "x = the r" by auto
    then obtain e a where "r = map_option (\<lambda>q. \<bar>q\<bar> * 100) (np_divide (a - e) e)"
      by auto
    with r none show ?thesis
      by (cases "np_divide (a - e) e") auto
  qed
  then show ?thesis
    unfolding v by (rule np_mean_nonneg)
qed

lemma cross_validation_unfold:
  assumes "reference_profile \<noteq> []" and "current_readings \<noteq> []"
    and "collect_values current_readings reference_profile electrodes ([], [])
           = (expected_values, actual_values)"
    and "3 \<le> length expected_values"
  shows "cross_validation_check current_readings reference_profile herb = Computed
     (let corr = np_corrcoef expected_values actual_values;
          rmse = sqrt (np_mean (map2 (\<lambda>e a. (e - a) ^ 2) expected_values actual_values));
          nrmse = np_divide rmse (np_max expected_values - np_min expected_values);
          rel_errors =
            map2 (\<lambda>e a. map_option (\<lambda>q. \<bar>q\<bar> * 100) (np_divide (a - e) e))
              expected_values actual_values;
          mean_rel_error = np_mean_opt rel_errors;
          composite_score =
            max0 corr * 30 + max0 (map_option (\<lambda>v. 1 - v) nrmse) * 30
              + max0 (map_option (\<lambda>v. 1 - v / 100) mean_rel_error) * 40;
          st = (if composite_score \<ge> 80 then ''excellent_match''
                else if composite_score \<ge> 60 then ''good_match''
                else if composite_score \<ge> 40 then ''acceptable_match''
                else if composite_score \<ge> 20 then ''poor_match''
                else ''no_match'')
      in \<lparr>validation_score = composite_score,
          status = st,
          herb_name = herb,
          metrics = \<lparr>correlation = corr, normalized_rmse = nrmse,
                     mean_relative_error = mean_rel_error\<rparr>,
          comparison = \<lparr>expected = expected_values, actual = actual_values,
                        relative_errors = rel_errors\<rparr>\<rparr>)"
proof -
  have n: "\<not> length expected_values < 3" using assms(4) by simp
  have c: "\<not> (reference_profile = [] \<or> current_readings = [])" using assms(1,2) by simp
  show ?thesis
    unfolding cross_validation_check_def Let_def
    by (simp only: c n assms(3) if_False prod.case)
qed

lemma cross_validation_sentinels:
  "reference_profile = [] \<or> current_readings = [] \<Longrightarrow>
     cross_validation_check current_readings reference_profile herb
       = Sentinel 0 ''insufficient_data''"
  "reference_profile \<noteq> [] \<Longrightarrow> current_readings \<noteq> [] \<Longrightarrow>
     length (present_in_reference reference_profile) < 3 \<Longrightarrow>
     cross_validation_check current_readings reference_profile herb
       = Sentinel 0 ''insufficient_reference_data''"
proof -
  show "reference_profile = [] \<or> current_readings = [] \<Longrightarrow>
     cross_validation_check current_readings reference_profile herb
       = Sentinel 0 ''insufficient_data''"
    unfolding cross_validation_check_def by (simp only: if_True)
next
  assume a: "reference_profile \<noteq> []" "current_readings \<noteq> []"
     "length (present_in_reference reference_profile) < 3"
  obtain ev av where c: "collect_values current_readings reference_profile electrodes ([], [])
           = (ev, av)"
    by (cases "collect_values current_readings reference_profile electrodes ([], [])")
  have l: "length ev < 3"
    using collect_values_lengths(1) [OF c] a(3) by simp
  have n: "\<not> (reference_profile = [] \<or> current_readings = [])" using a by simp
  show "cross_validation_check current_readings reference_profile herb
       = Sentinel 0 ''insufficient_reference_data''"
    unfolding cross_validation_check_def Let_def
    by (simp only: n c l if_False if_True prod.case)
qed

lemma cross_validation_computed:
  assumes "reference_profile \<noteq> []" and "current_readings \<noteq> []"
    and "3 \<le> length (present_in_reference reference_profile)"
  shows "\<exists>r ev av. cross_validation_check current_readings reference_profile herb = Computed r
     \<and> collect_values current_readings reference_profile electrodes ([], []) = (ev, av)
     \<and> length ev = length (present_in_reference reference_profile)
     \<and> length av = length ev
     \<and> correlation (metrics r) = np_corrcoef ev av
     \<and> normalized_rmse (metrics r)
          = np_divide (sqrt (np_mean (map2 (\<lambda>e a. (e - a) ^ 2) ev av))) (np_max ev - np_min ev)
     \<and> mean_relative_error (metrics r)
          = np_mean_opt (map2 (\<lambda>e a. map_option (\<lambda>q. \<bar>q\<bar> * 100) (np_divide (a - e) e)) ev av)
     \<and> validation_score r
          = max0 (correlation (metrics r)) * 30
            + max0 (map_option (\<lambda>v. 1 - v) (normalized_rmse (metrics r))) * 30
            + max0 (map_option (\<lambda>v. 1 - v / 100) (mean_relative_error (metrics r))) * 40
     \<and> status r
          = (if validation_score r \<ge> 80 then ''excellent_match''
             else if validation_score r \<ge> 60 then ''good_match''
             else if validation_score r \<ge> 40 then ''acceptable_match''
             else if validation_score r \<ge> 20 then ''poor_match''
             else ''no_match'')"
proof -
  obtain ev av where c: "collect_values current_readings reference_profile electrodes ([], [])
           = (ev, av)"
    by (cases "collect_values current_readings reference_profile electrodes ([], [])")
  have l: "length ev = length (present_in_reference reference_profile)" "length av = length ev"
    using collect_values_lengths [OF c] by simp_all
  have l3: "3 \<le> length ev" using l assms(3) by simp
  show ?thesis
    unfolding cross_validation_unfold [OF assms(1,2) c l3] Let_def
    apply (rule exI, rule exI [of _ ev], rule exI [of _ av])
    apply (intro conjI)
            apply (rule refl)
           apply (rule c)
          apply (rule l(1))
         apply (rule l(2))
        apply (simp_all only: validation_result.simps validation_metrics.simps)
    done
qed

lemma computed_not_sentinel_conditions:
  assumes "cross_validation_check cr rp h = Computed r"
  shows "rp \<noteq> []" "cr \<noteq> []" "3 \<le> length (present_in_reference rp)"
proof -
  show a: "rp \<noteq> []"
    using assms cross_validation_sentinels(1) [of rp cr h] by auto
  show b: "cr \<noteq> []"
    using assms cross_validation_sentinels(1) [of rp cr h] by auto
  show "3 \<le> length (present_in_reference rp)"
    using assms a b cross_validation_sentinels(2) [of rp cr h] by (cases "length (present_in_reference rp) < 3") auto
qed

text \<open>
  Claim C8. Whenever \<^verbatim>\<open>cross_validation_check\<close> returns a computed result, its
  \<^verbatim>\<open>validation_score\<close> is 30 times \<open>max(0, correlation)\<close> plus 30 times
  \<open>max(0, 1 - normalized_rmse)\<close> plus 40 times \<open>max(0, 1 - mean_relative_error / 100)\<close>,
  it lies between 0 and 100, and the status is \<^verbatim>\<open>excellent_match\<close> from 80,
  \<^verbatim>\<open>good_match\<close> from 60, \<^verbatim>\<open>acceptable_match\<close> from 40, \<^verbatim>\<open>poor_match\<close> from 20
  and \<^verbatim>\<open>no_match\<close> below. Python's \<open>max(0, v)\<close> is \<^const>\<open>max0\<close>.
\<close>

theorem validation_score_and_status:
  assumes "cross_validation_check cr rp h = Computed r"
  shows "validation_score r
          = 30 * max0 (correlation (metrics r))
            + 30 * max0 (map_option (\<lambda>v. 1 - v) (normalized_rmse (metrics r)))
            + 40 * max0 (map_option (\<lambda>v. 1 - v / 100) (mean_relative_error (metrics r)))
     \<and> 0 \<le> validation_score r \<and> validation_score r \<le> 100
     \<and> status r
          = (if validation_score r \<ge> 80 then ''excellent_match''
             else if validation_score r \<ge> 60 then ''good_match''
             else if validation_score r \<ge> 40 then ''acceptable_match''
             else if validation_score r \<ge> 20 then ''poor_match''
             else ''no_match'')"
proof -
  note cond = computed_not_sentinel_conditions [OF assms]
  obtain r' ev av where r': "cross_validation_check cr rp h = Computed r'"
    and len: "length ev = length (present_in_reference rp)" "length av = length ev"
    and corr: "correlation (metrics r') = np_corrcoef ev av"
    and nrmse: "normalized_rmse (metrics r')
          = np_divide (sqrt (np_mean (map2 (\<lambda>e a. (e - a) ^ 2) ev av))) (np_max ev - np_min ev)"
    and mre: "mean_relative_error (metrics r')
          = np_mean_opt (map2 (\<lambda>e a. map_option (\<lambda>q. \<bar>q\<bar> * 100) (np_divide (a - e) e)) ev av)"
    and score: "validation_score r'
          = max0 (correlation (metrics r')) * 30
            + max0 (map_option (\<lambda>v. 1 - v) (normalized_rmse (metrics r'))) * 30
            + max0 (map_option (\<lambda>v. 1 - v / 100) (mean_relative_error (metrics r'))) * 40"
    and st: "status r'
          = (if validation_score r' \<ge> 80 then ''excellent_match''
             else if validation_score r' \<ge> 60 then ''good_match''
             else if validation_score r' \<ge> 40 then ''acceptable_match''
             else if validation_score r' \<ge> 20 then ''poor_match''
             else ''no_match'')"
    using cross_validation_computed [OF cond, of h] by (elim exE conjE)
  have rr: "r' = r" using r' assms by simp
  have ne: "ev \<noteq> []" using len cond(3) by auto
  have c1: "max0 (correlation (metrics r)) \<le> 1"
  proof (rule max0_bounds(2))
    fix x assume "correlation (metrics r) = Some x"
    then have "np_corrcoef ev av = Some x" using corr rr by simp
    then show "x \<le> 1" using np_corrcoef_le_1 [of ev av x] len by simp
  qed
  have c2: "max0 (map_option (\<lambda>v. 1 - v) (normalized_rmse (metrics r))) \<le> 1"
  proof (rule max0_bounds(2))
    fix x assume "map_option (\<lambda>v. 1 - v) (normalized_rmse (metrics r)) = Some x"
    then obtain v where v: "normalized_rmse (metrics r) = Some v" "x = 1 - v" by auto
    have "0 \<le> np_mean (map2 (\<lambda>e a. (e - a) ^ 2) ev av)"
      by (rule np_mean_nonneg) auto
    then have "0 \<le> v"
      using nrmse_nonneg [of _ ev v] v(1) nrmse rr ne by simp
    then show "x \<le> 1" using v(2) by simp
  qed
  have c3: "max0 (map_option (\<lambda>v. 1 - v / 100) (mean_relative_error (metrics r))) \<le> 1"
  proof (rule max0_bounds(2))
    fix x assume "map_option (\<lambda>v. 1 - v / 100) (mean_relative_error (metrics r)) = Some x"
    then obtain v where v: "mean_relative_error (metrics r) = Some v" "x = 1 - v / 100" by auto
    have "0 \<le> v"
      using mean_rel_error_nonneg [of ev av v] v(1) mre rr by simp
    then show "x \<le> 1" using v(2) by simp
  qed
  have sc: "validation_score r
          = 30 * max0 (correlation (metrics r))
            + 30 * max0 (map_option (\<lambda>v. 1 - v) (normalized_rmse (metrics r)))
            + 40 * max0 (map_option (\<lambda>v. 1 - v / 100) (mean_relative_error (metrics r)))"
    using score rr by (simp add: mult.commute)
  have lo: "0 \<le> validation_score r"
    unfolding sc by (intro add_nonneg_nonneg mult_nonneg_nonneg max0_bounds(1)) simp_all
  have hi: "validation_score r \<le> 100"
    unfolding sc using c1 c2 c3 by linarith
  show ?thesis
    using sc lo hi st rr by (intro conjI) simp_all
qed

section \<open>Cross validation on concrete readings\<close>

lemma collect_three:
  "collect_values cr [(''electrode_response'', [(''SS'', a), (''Cu'', b), (''Zn'', c)])]
       electrodes ([], [])
     = ([a, b, c],
        [dict_get cr ''SS_voltage'' 0, dict_get cr ''Cu_voltage'' 0, dict_get cr ''Zn_voltage'' 0])"
  by (simp add: electrodes_def dict_get_def)

lemma perfect_match_value:
  "cross_validation_check [(''SS_voltage'', 1), (''Cu_voltage'', 2), (''Zn_voltage'', 3)]
       [(''electrode_response'', [(''SS'', 1), (''Cu'', 2), (''Zn'', 3)])] ''tulsi''
     = Computed
        \<lparr>validation_score = 100, status = ''excellent_match'', herb_name = ''tulsi'',
         metrics = \<lparr>correlation = Some 1, normalized_rmse = Some 0,
                    mean_relative_error = Some 0\<rparr>,
         comparison = \<lparr>expected = [1, 2, 3], actual = [1, 2, 3],
                       relative_errors = [Some 0, Some 0, Some 0]\<rparr>\<rparr>"
proof -
  have c: "collect_values [(''SS_voltage'', 1), (''Cu_voltage'', 2), (''Zn_voltage'', 3)]
       [(''electrode_response'', [(''SS'', 1), (''Cu'', 2), (''Zn'', 3)])] electrodes ([], [])
     = ([1, 2, 3], [1, 2, 3])"
    by (simp add: collect_three dict_get_def)
  have m: "np_mean [1, 2, 3] = 2" by (simp add: np_mean_def)
  have cov: "np_cov [1, 2, 3] [1, 2, 3] = 1" by (simp add: np_cov_def m)
  have corr: "np_corrcoef [1, 2, 3] [1, 2, 3] = Some 1"
    by (simp add: np_corrcoef_def cov np_divide_def)
  show ?thesis
    by (simp add: cross_validation_unfold [OF _ _ c] corr np_mean_def np_divide_def
        np_mean_opt_def max0_def Let_def)
qed


theorem validation_score_and_status_witness:
  "cross_validation_check [(''SS_voltage'', 1), (''Cu_voltage'', 2), (''Zn_voltage'', 3)]
       [(''electrode_response'', [(''SS'', 1), (''Cu'', 2), (''Zn'', 3)])] ''tulsi''
     = Computed
        \<lparr>validation_score = 100, status = ''excellent_match'', herb_name = ''tulsi'',
         metrics = \<lparr>correlation = Some 1, normalized_rmse = Some 0,
                    mean_relative_error = Some 0\<rparr>,
         comparison = \<lparr>expected = [1, 2, 3], actual = [1, 2, 3],
                       relative_errors = [Some 0, Some 0, Some 0]\<rparr>\<rparr>
   \<and> (100::real) = 30 * max0 (Some 1) + 30 * max0 (map_option (\<lambda>v. 1 - v) (Some 0))
          + 40 * max0 (map_option (\<lambda>v. 1 - v / 100) (Some 0))
   \<and> (0::real) \<le> 100 \<and> (100::real) \<le> 100
   \<and> ''excellent_match''
        = (if (100::real) \<ge> 80 then ''excellent_match''
           else if (100::real) \<ge> 60 then ''good_match''
           else if (100::real) \<ge> 40 then ''acceptable_match''
           else if (100::real) \<ge> 20 then ''poor_match''
           else ''no_match'')"
  using perfect_match_value validation_score_and_status [OF perfect_match_value]
  by (simp only: validation_result.simps validation_metrics.simps simp_thms)

lemma degenerate_expected_value:
  "cross_validation_check [(''SS_voltage'', 1), (''Cu_voltage'', 1), (''Zn_voltage'', 1)]
       [(''electrode_response'', [(''SS'', 1), (''Cu'', 1), (''Zn'', 1)])] ''tulsi''
     = Computed
        \<lparr>validation_score = 40, status = ''acceptable_match'', herb_name = ''tulsi'',
         metrics = \<lparr>correlation = None, normalized_rmse = None,
                    mean_relative_error = Some 0\<rparr>,
         comparison = \<lparr>expected = [1, 1, 1], actual = [1, 1, 1],
                       relative_errors = [Some 0, Some 0, Some 0]\<rparr>\<rparr>"
proof -
  have c: "collect_values [(''SS_voltage'', 1), (''Cu_voltage'', 1), (''Zn_voltage'', 1)]
       [(''electrode_response'', [(''SS'', 1), (''Cu'', 1), (''Zn'', 1)])] electrodes ([], [])
     = ([1, 1, 1], [1, 1, 1])"
    by (simp add: collect_three dict_get_def)
  have m: "np_mean [1, 1, 1] = 1" by (simp add: np_mean_def)
  have cov: "np_cov [1, 1, 1] [1, 1, 1] = 0" by (simp add: np_cov_def m)
  have corr: "np_corrcoef [1, 1, 1] [1, 1, 1] = None"
    by (simp add: np_corrcoef_def cov np_divide_def)
  show ?thesis
    by (simp add: cross_validation_unfold [OF _ _ c] corr np_mean_def np_divide_def
        np_mean_opt_def max0_def Let_def)
qed

lemma zero_expected_value:
  "cross_validation_check [(''SS_voltage'', 0), (''Cu_voltage'', 1), (''Zn_voltage'', 2)]
       [(''electrode_response'', [(''SS'', 0), (''Cu'', 1), (''Zn'', 2)])] ''tulsi''
     = Computed
        \<lparr>validation_score = 60, status = ''good_match'', herb_name = ''tulsi'',
         metrics = \<lparr>correlation = Some 1, normalized_rmse = Some 0,
                    mean_relative_error = None\<rparr>,
         comparison = \<lparr>expected = [0, 1, 2], actual = [0, 1, 2],
                       relative_errors = [None, Some 0, Some 0]\<rparr>\<rparr>"
proof -
  have c: "collect_values [(''SS_voltage'', 0), (''Cu_voltage'', 1), (''Zn_voltage'', 2)]
       [(''electrode_response'', [(''SS'', 0), (''Cu'', 1), (''Zn'', 2)])] electrodes ([], [])
     = ([0, 1, 2], [0, 1, 2])"
    by (simp add: collect_three dict_get_def)
  have m: "np_mean [0, 1, 2] = 1" by (simp add: np_mean_def)
  have cov: "np_cov [0, 1, 2] [0, 1, 2] = 1" by (simp add: np_cov_def m)
  have corr: "np_corrcoef [0, 1, 2] [0, 1, 2] = Some 1"
    by (simp add: np_corrcoef_def cov np_divide_def)
  show ?thesis
    by (simp add: cross_validation_unfold [OF _ _ c] corr np_mean_def np_divide_def
        np_mean_opt_def max0_def Let_def)
qed

text \<open>
  Claim C3, evaluated on the code. With three identical expected values the range
  \<open>max - min\<close> that divides the RMSE is 0 and so are the standard deviations that divide
  the covariance: the normalised RMSE and the correlation are not finite. With an
  expected value of 0 the relative error divides by 0 and the mean relative error is not
  finite. No denominator of \<^verbatim>\<open>cross_validation_check\<close> has a floor.
\<close>

theorem cross_validation_zero_denominators:
  "np_max [1, 1, 1] - np_min [1, 1, 1] = 0
   \<and> cross_validation_check [(''SS_voltage'', 1), (''Cu_voltage'', 1), (''Zn_voltage'', 1)]
       [(''electrode_response'', [(''SS'', 1), (''Cu'', 1), (''Zn'', 1)])] ''tulsi''
     = Computed
        \<lparr>validation_score = 40, status = ''acceptable_match'', herb_name = ''tulsi'',
         metrics = \<lparr>correlation = None, normalized_rmse = None,
                    mean_relative_error = Some 0\<rparr>,
         comparison = \<lparr>expected = [1, 1, 1], actual = [1, 1, 1],
                       relative_errors = [Some 0, Some 0, Some 0]\<rparr>\<rparr>
   \<and> cross_validation_check [(''SS_voltage'', 0), (''Cu_voltage'', 1), (''Zn_voltage'', 2)]
       [(''electrode_response'', [(''SS'', 0), (''Cu'', 1), (''Zn'', 2)])] ''tulsi''
     = Computed
        \<lparr>validation_score = 60, status = ''good_match'', herb_name = ''tulsi'',
         metrics = \<lparr>correlation = Some 1, normalized_rmse = Some 0,
                    mean_relative_error = None\<rparr>,
         comparison = \<lparr>expected = [0, 1, 2], actual = [0, 1, 2],
                       relative_errors = [None, Some 0, Some 0]\<rparr>\<rparr>"
  using degenerate_expected_value zero_expected_value by simp

text \<open>
  Claim C4, as stated, fails: with three electrodes in the reference profile and only one
  of their voltages in the current readings, the result is a computed one and not a
  sentinel. A missing reading is read as 0.
\<close>

theorem missing_readings_counterexample:
  "length (present_in_reference [(''electrode_response'', [(''SS'', 1), (''Cu'', 2), (''Zn'', 3)])]) = 3
   \<and> length (spec_present_in_both [(''SS_voltage'', 1)]
        [(''electrode_response'', [(''SS'', 1), (''Cu'', 2), (''Zn'', 3)])]) = 1
   \<and> \<not> is_Sentinel (cross_validation_check [(''SS_voltage'', 1)]
        [(''electrode_response'', [(''SS'', 1), (''Cu'', 2), (''Zn'', 3)])] ''tulsi'')"
proof -
  let ?rp = "[(''electrode_response'', [(''SS'', 1), (''Cu'', 2), (''Zn'', 3 :: real)])]"
  have p: "present_in_reference ?rp = [''SS'', ''Cu'', ''Zn'']"
    by (simp add: present_in_reference_def electrodes_def dict_get_def)
  have b: "spec_present_in_both [(''SS_voltage'', 1)] ?rp = [''SS'']"
    by (simp add: spec_present_in_both_def p)
  have "3 \<le> length (present_in_reference ?rp)" by (simp add: p)
  from cross_validation_computed [OF _ _ this, of "[(''SS_voltage'', 1)]" "''tulsi''"]
  obtain r where "cross_validation_check [(''SS_voltage'', 1)] ?rp ''tulsi'' = Computed r"
    by auto
  then show ?thesis
    by (simp add: p b)
qed

lemma collected_values:
  "collect_values cr rp electrodes ([], [])
     = (map (\<lambda>electrode. the (map_of (dict_get rp ''electrode_response'' []) electrode))
          (present_in_reference rp),
        map (\<lambda>electrode. case map_of cr (electrode @ ''_voltage'') of None \<Rightarrow> 0 | Some v \<Rightarrow> v)
          (present_in_reference rp))"
  by (simp add: collect_values_eq present_in_reference_def dict_get_def)

lemma cross_validation_comparison:
  assumes "rp \<noteq> []" and "cr \<noteq> []" and "3 \<le> length (present_in_reference rp)"
  shows "\<exists>r. cross_validation_check cr rp h = Computed r
     \<and> expected (comparison r)
          = map (\<lambda>electrode. the (map_of (dict_get rp ''electrode_response'' []) electrode))
              (present_in_reference rp)
     \<and> actual (comparison r)
          = map (\<lambda>electrode. case map_of cr (electrode @ ''_voltage'') of None \<Rightarrow> 0 | Some v \<Rightarrow> v)
              (present_in_reference rp)"
proof -
  let ?ev = "map (\<lambda>electrode. the (map_of (dict_get rp ''electrode_response'' []) electrode))
          (present_in_reference rp)"
  let ?av = "map (\<lambda>electrode. case map_of cr (electrode @ ''_voltage'') of None \<Rightarrow> 0 | Some v \<Rightarrow> v)
          (present_in_reference rp)"
  have c: "collect_values cr rp electrodes ([], []) = (?ev, ?av)"
    by (rule collected_values)
  have l3: "3 \<le> length ?ev" using assms(3) by simp
  show ?thesis
    unfolding cross_validation_unfold [OF assms(1,2) c l3] Let_def
    by (rule exI, intro conjI, rule refl)
       (simp_all only: validation_result.simps electrode_comparison.simps)
qed

text \<open>
  Claim C4, amended. \<^verbatim>\<open>cross_validation_check\<close> returns the sentinel
  \<^verbatim>\<open>insufficient_data\<close> when the reference profile or the current readings are empty,
  and the sentinel \<^verbatim>\<open>insufficient_reference_data\<close> when both are non-empty and fewer
  than 3 of the five electrodes are keys of the profile's \<^verbatim>\<open>electrode_response\<close>.
  Otherwise it returns a computed result: the expected values are the profile's responses
  of those electrodes, and the actual values are the entries \<^verbatim>\<open>SS_voltage\<close>, ... of
  the current readings for the same electrodes, an entry that is missing being read
  as 0.
\<close>

theorem cross_validation_sentinel_cases:
  "(rp = [] \<or> cr = [] \<longrightarrow>
      cross_validation_check cr rp h = Sentinel 0 ''insufficient_data'')
   \<and> (rp \<noteq> [] \<and> cr \<noteq> [] \<and> length (present_in_reference rp) < 3 \<longrightarrow>
        cross_validation_check cr rp h = Sentinel 0 ''insufficient_reference_data'')
   \<and> (rp \<noteq> [] \<and> cr \<noteq> [] \<and> 3 \<le> length (present_in_reference rp) \<longrightarrow>
        \<not> is_Sentinel (cross_validation_check cr rp h)
        \<and> (\<exists>r. cross_validation_check cr rp h = Computed r
             \<and> expected (comparison r)
                  = map (\<lambda>electrode. the (map_of (dict_get rp ''electrode_response'' []) electrode))
                      (present_in_reference rp)
             \<and> actual (comparison r)
                  = map (\<lambda>electrode. case map_of cr (electrode @ ''_voltage'') of
                                        None \<Rightarrow> 0 | Some v \<Rightarrow> v)
                      (present_in_reference rp)))"
proof (intro conjI impI)
  assume "rp = [] \<or> cr = []"
  then show "cross_validation_check cr rp h = Sentinel 0 ''insufficient_data''"
    by (rule cross_validation_sentinels(1))
next
  assume "rp \<noteq> [] \<and> cr \<noteq> [] \<and> length (present_in_reference rp) < 3"
  then show "cross_validation_check cr rp h = Sentinel 0 ''insufficient_reference_data''"
    using cross_validation_sentinels(2) by blast
next
  assume a: "rp \<noteq> [] \<and> cr \<noteq> [] \<and> 3 \<le> length (present_in_reference rp)"
  then obtain r where "cross_validation_check cr rp h = Computed r"
    using cross_validation_computed [of rp cr h] by blast
  then show "\<not> is_Sentinel (cross_validation_check cr rp h)"
    by simp
next
  assume a: "rp \<noteq> [] \<and> cr \<noteq> [] \<and> 3 \<le> length (present_in_reference rp)"
  then show "\<exists>r. cross_validation_check cr rp h = Computed r
             \<and> expected (comparison r)
                  = map (\<lambda>electrode. the (map_of (dict_get rp ''electrode_response'' []) electrode))
                      (present_in_reference rp)
             \<and> actual (comparison r)
                  = map (\<lambda>electrode. case map_of cr (electrode @ ''_voltage'') of
                                        None \<Rightarrow> 0 | Some v \<Rightarrow> v)
                      (present_in_reference rp)"
    using cross_validation_comparison [of rp cr h] by blast
qed

theorem cross_validation_sentinel_cases_witness:
  "cross_validation_check [] [(''electrode_response'', [(''SS'', 1), (''Cu'', 2), (''Zn'', 3)])] ''tulsi''
      = Sentinel 0 ''insufficient_data''
   \<and> length (present_in_reference [(''electrode_response'', [(''SS'', 1), (''Cu'', 2)])]) < 3
   \<and> cross_validation_check [(''SS_voltage'', 1)] [(''electrode_response'', [(''SS'', 1), (''Cu'', 2)])] ''tulsi''
      = Sentinel 0 ''insufficient_reference_data''
   \<and> 3 \<le> length (present_in_reference [(''electrode_response'', [(''SS'', 1), (''Cu'', 2), (''Zn'', 3)])])
   \<and> \<not> is_Sentinel (cross_validation_check [(''SS_voltage'', 1)]
        [(''electrode_response'', [(''SS'', 1), (''Cu'', 2), (''Zn'', 3)])] ''tulsi'')
   \<and> (\<exists>r. cross_validation_check [(''SS_voltage'', 1)]
            [(''electrode_response'', [(''SS'', 1), (''Cu'', 2), (''Zn'', 3)])] ''tulsi'' = Computed r
        \<and> expected (comparison r) = [1, 2, 3]
        \<and> actual (comparison r) = [1, 0, 0])"
proof -
  let ?rp3 = "[(''electrode_response'', [(''SS'', 1), (''Cu'', 2), (''Zn'', 3 :: real)])]"
  let ?rp2 = "[(''electrode_response'', [(''SS'', 1), (''Cu'', 2 :: real)])]"
  have p3: "present_in_reference ?rp3 = [''SS'', ''Cu'', ''Zn'']"
    by (simp add: present_in_reference_def electrodes_def dict_get_def)
  have p2: "present_in_reference ?rp2 = [''SS'', ''Cu'']"
    by (simp add: present_in_reference_def electrodes_def dict_get_def)
  have a: "cross_validation_check [] ?rp3 ''tulsi'' = Sentinel 0 ''insufficient_data''"
    using cross_validation_sentinel_cases [of ?rp3 "[]" "''tulsi''"] by simp
  have b: "cross_validation_check [(''SS_voltage'', 1)] ?rp2 ''tulsi''
      = Sentinel 0 ''insufficient_reference_data''"
    using cross_validation_sentinel_cases [of ?rp2 "[(''SS_voltage'', 1)]" "''tulsi''"]
    by (simp add: p2)
  have c: "\<not> is_Sentinel (cross_validation_check [(''SS_voltage'', 1)] ?rp3 ''tulsi'')
     \<and> (\<exists>r. cross_validation_check [(''SS_voltage'', 1)] ?rp3 ''tulsi'' = Computed r
        \<and> expected (comparison r) = [1, 2, 3]
        \<and> actual (comparison r) = [1, 0, 0])"
    using cross_validation_sentinel_cases [of ?rp3 "[(''SS_voltage'', 1)]" "''tulsi''"]
    by (simp add: p3 dict_get_def)
  show ?thesis
    using a b c by (simp add: p2 p3)
qed

section \<open>The maintenance forecast\<close>


lemma predictive_missing_timestamp:
  "20 \<le> length sensor_history \<Longrightarrow> \<exists>entry \<in> set sensor_history. timestamp entry = None \<Longrightarrow>
     predictive_maintenance_analysis sensor_history usage_data = Inl (KeyError ''timestamp'')"
  by (auto simp: predictive_maintenance_analysis_def)


lemma py_min_two: "py_min [a] = a" "py_min [a, b] = min a b"
  by (simp_all add: min.commute)





section \<open>The least-squares slope\<close>

lemma sum_arange: "sum_list (np_arange n) = real n * (real n - 1) / 2"
  by (induction n) (simp_all add: np_arange_def field_simps)

lemma sum_arange_squares:
  "sum_list (map2 (*) (np_arange n) (np_arange n)) = (real n - 1) * real n * (2 * real n - 1) / 6"
proof -
  have "map2 (*) (np_arange n) (np_arange n) = map (\<lambda>i. real i * real i) [0..<n]"
    by (simp add: np_arange_def zip_map_map zip_same_conv_map)
  moreover have "sum_list (map (\<lambda>i. real i * real i) [0..<n])
      = (real n - 1) * real n * (2 * real n - 1) / 6"
    by (induction n) (simp_all add: field_simps)
  ultimately show ?thesis by simp
qed

lemma trend_denominator:
  "real n * sum_list (map2 (*) (np_arange n) (np_arange n)) - sum_list (np_arange n) * sum_list (np_arange n)
     = (real n)\<^sup>2 * ((real n)\<^sup>2 - 1) / 12"
  by (simp add: sum_arange sum_arange_squares field_simps power2_eq_square)

lemma trend_denominator_closed_pos:
  assumes "2 \<le> n"
  shows "0 < (real n)\<^sup>2 * ((real n)\<^sup>2 - 1) / 12"
proof -
  have "1 < real n" using assms by simp
  then have "1 < (real n)\<^sup>2" by (simp add: power2_eq_square less_1_mult)
  then have "0 < (real n)\<^sup>2" "0 < (real n)\<^sup>2 - 1" using assms by simp_all
  then have "0 < (real n)\<^sup>2 * ((real n)\<^sup>2 - 1)" by (rule mult_pos_pos)
  then show ?thesis by simp
qed


lemma linear_trend_as_quotient:
  assumes "2 \<le> length ys"
  shows "calculate_linear_trend (np_arange (length ys)) ys
     = trend_numerator ys
         / ((real (length ys))\<^sup>2 * ((real (length ys))\<^sup>2 - 1) / 12)"
proof -
  have l: "length (np_arange (length ys)) = length ys" by (simp add: np_arange_def)
  have n: "\<not> length ys < 2" using assms by simp
  show ?thesis
    unfolding calculate_linear_trend_def Let_def l trend_numerator_def
    by (simp only: n if_False trend_denominator)
qed

lemma np_arange_Suc: "np_arange (Suc n) = np_arange n @ [real n]"
  by (simp add: np_arange_def)

lemma weighted_differences:
  "length as = length ys \<Longrightarrow>
     sum_list (map2 (\<lambda>i yi. (c - i) * (y - yi)) as ys)
       = c * y * real (length ys) - c * sum_list ys - y * sum_list as
           + sum_list (map2 (*) as (ys :: real list))"
  by (induction as ys rule: list_induct2) (simp_all add: algebra_simps)

lemma trend_numerator_snoc:
  "trend_numerator (ys @ [y])
     = trend_numerator ys
         + sum_list (map2 (\<lambda>i yi. (real (length ys) - i) * (y - yi)) (np_arange (length ys)) ys)"
proof -
  let ?n = "real (length ys)"
  let ?as = "np_arange (length ys)"
  have l: "length ?as = length ys" by (simp add: np_arange_def)
  have w: "sum_list (map2 (\<lambda>i yi. (?n - i) * (y - yi)) ?as ys)
       = ?n * y * ?n - ?n * sum_list ys - y * sum_list ?as + sum_list (map2 (*) ?as ys)"
    by (rule weighted_differences [OF l])
  have "trend_numerator (ys @ [y])
       = (?n + 1) * (sum_list (map2 (*) ?as ys) + ?n * y)
           - (sum_list ?as + ?n) * (sum_list ys + y)"
    by (simp add: trend_numerator_def np_arange_Suc l)
  also have "\<dots> = trend_numerator ys
       + (?n * y * ?n - ?n * sum_list ys - y * sum_list ?as + sum_list (map2 (*) ?as ys))"
    by (simp add: trend_numerator_def algebra_simps)
  finally show ?thesis
    by (simp only: w)
qed

lemma sum_list_pos_real:
  "xs \<noteq> [] \<Longrightarrow> (\<And>x. x \<in> set xs \<Longrightarrow> 0 < (x::real)) \<Longrightarrow> 0 < sum_list xs"
proof (induction xs)
  case Nil
  then show ?case by simp
next
  case (Cons x xs)
  show ?case
  proof (cases "xs = []")
    case True
    then show ?thesis using Cons.prems(2) by simp
  next
    case False
    then have "0 < sum_list xs" using Cons by simp
    moreover have "0 < x" using Cons.prems(2) by simp
    ultimately show ?thesis by simp
  qed
qed

lemma weighted_differences_pos:
  assumes "ys \<noteq> []" and "\<And>x. x \<in> set ys \<Longrightarrow> x < y"
  shows "0 < sum_list (map2 (\<lambda>i yi. (real (length ys) - i) * (y - yi)) (np_arange (length ys)) ys)"
proof (rule sum_list_pos_real)
  show "map2 (\<lambda>i yi. (real (length ys) - i) * (y - yi)) (np_arange (length ys)) ys \<noteq> []"
    using assms(1) by (simp add: np_arange_def)
next
  fix x assume "x \<in> set (map2 (\<lambda>i yi. (real (length ys) - i) * (y - yi)) (np_arange (length ys)) ys)"
  then obtain i yi where p: "(i, yi) \<in> set (zip (np_arange (length ys)) ys)"
      and x: "x = (real (length ys) - i) * (y - yi)"
    by auto
  have "i \<in> set (np_arange (length ys))" "yi \<in> set ys"
    using p by (auto dest: set_zip_leftD set_zip_rightD)
  then have "i < real (length ys)" "yi < y"
    using assms(2) by (auto simp: np_arange_def)
  then show "0 < x" by (simp add: x)
qed

lemma trend_numerator_nonneg:
  "sorted_wrt (<) ys \<Longrightarrow> 0 \<le> trend_numerator ys"
proof (induction ys rule: rev_induct)
  case Nil
  then show ?case by (simp add: trend_numerator_def np_arange_def)
next
  case (snoc y ys)
  then have s: "sorted_wrt (<) ys" and lt: "\<And>x. x \<in> set ys \<Longrightarrow> x < y"
    by (simp_all add: sorted_wrt_append)
  show ?case
  proof (cases "ys = []")
    case True
    then show ?thesis by (simp add: trend_numerator_def np_arange_def)
  next
    case False
    from weighted_differences_pos [OF False lt] snoc.IH [OF s]
    show ?thesis by (simp add: trend_numerator_snoc)
  qed
qed

lemma trend_numerator_pos:
  assumes "sorted_wrt (<) ys" and "2 \<le> length ys"
  shows "0 < trend_numerator ys"
proof -
  obtain zs y where ys: "ys = zs @ [y]"
    using assms(2) by (cases ys rule: rev_cases) auto
  then have ne: "zs \<noteq> []" using assms(2) by auto
  have s: "sorted_wrt (<) zs" and lt: "\<And>x. x \<in> set zs \<Longrightarrow> x < y"
    using assms(1) by (simp_all add: ys sorted_wrt_append)
  from weighted_differences_pos [OF ne lt] trend_numerator_nonneg [OF s]
  show ?thesis by (simp add: ys trend_numerator_snoc)
qed

lemma increasing_trend_positive:
  assumes "sorted_wrt (<) ys" and "2 \<le> length ys"
  shows "0 < calculate_linear_trend (np_arange (length ys)) ys"
  using trend_numerator_pos [OF assms] trend_denominator_closed_pos [OF assms(2)]
  by (simp only: linear_trend_as_quotient [OF assms(2)] divide_pos_pos)

section \<open>The forecast on a rising history\<close>









end
